theory Spec2Isabelle
  imports
    Main
    "HOL-Library.Word"
    "HOL-Library.Char_ord"
    "HOL-Library.List_Lexorder"
    "HOL-Library.Sublist"
begin

unbundle bit_operations_syntax

section \<open>Startup configuration of the server (cmd/common-main.go)\<close>

text \<open>
  A shallow embedding of the startup code of \<^verbatim>\<open>cmd/common-main.go\<close>:
  \<^verbatim>\<open>newConfigDirFromCtx\<close>, the directory part of \<^verbatim>\<open>handleCommonCmdArgs\<close>, the
  domain, public-address and KMS parts of \<^verbatim>\<open>handleCommonEnvVars\<close>, and
  \<^verbatim>\<open>getTLSConfig\<close>.

  The Go code reads its surroundings through library calls (the CLI context, the
  process environment, the file system, the resolver, the certificate parsers). Each
  such call is a field of a record of functions that the embedded function takes as an
  argument, so a theorem about the embedded function holds for every behaviour of the
  library. Process-wide variables the code assigns are threaded as explicit state, and
  \<^verbatim>\<open>logger.Fatal\<close> (which ends the process) is the \<open>Inl\<close> branch of a sum.
\<close>

subsection \<open>Errors\<close>

text \<open>
  A Go \<^verbatim>\<open>error\<close> value. \<open>ErrorsNew m\<close> is \<^verbatim>\<open>errors.New(m)\<close>; \<open>ConfigErr k f as\<close> is
  \<^verbatim>\<open>config.ErrK(nil).Msg(f, as...)\<close>; \<open>Errorf f as e\<close> is \<^verbatim>\<open>fmt.Errorf(f, as..., e)\<close>
  wrapping \<open>e\<close>; \<open>LibErr m\<close> is an error returned by a library call.
\<close>

datatype go_error =
    ErrorsNew string
  | errInvalidArgument
  | ConfigErr string string "string list"
  | Errorf string "string list" go_error
  | LibErr string

text \<open>
  \<^verbatim>\<open>logger.Fatal(err, msg, args...)\<close> and \<^verbatim>\<open>logger.FatalIf(err, msg, args...)\<close> with a
  non-nil \<^verbatim>\<open>err\<close>: the process ends. The message is kept as its format string and the
  list of its arguments.
\<close>

datatype fatal = Fatal go_error string "string list"

subsection \<open>File modes (os.FileMode) and directory entries (os.FileInfo)\<close>

type_synonym FileMode = "32 word"

definition ModeDir :: FileMode where "ModeDir = push_bit 31 1"
definition ModeSymlink :: FileMode where "ModeSymlink = push_bit 27 1"
definition ModeDevice :: FileMode where "ModeDevice = push_bit 26 1"
definition ModeNamedPipe :: FileMode where "ModeNamedPipe = push_bit 25 1"
definition ModeSocket :: FileMode where "ModeSocket = push_bit 24 1"
definition ModeCharDevice :: FileMode where "ModeCharDevice = push_bit 21 1"
definition ModeIrregular :: FileMode where "ModeIrregular = push_bit 19 1"

definition ModeType :: FileMode where
  "ModeType = ModeDir OR ModeSymlink OR ModeNamedPipe OR ModeSocket OR ModeDevice
     OR ModeCharDevice OR ModeIrregular"

definition IsRegular :: "FileMode \<Rightarrow> bool" where
  "IsRegular m = (m AND ModeType = 0)"

definition IsDir :: "FileMode \<Rightarrow> bool" where
  "IsDir m = (m AND ModeDir \<noteq> 0)"

record FileInfo =
  Name :: string
  Mode :: FileMode

text \<open>\<^verbatim>\<open>strings.HasPrefix(s, prefix)\<close>.\<close>

definition HasPrefix :: "string \<Rightarrow> string \<Rightarrow> bool" where
  "HasPrefix s p = (take (length p) s = p)"

subsection \<open>The operating system, as the code calls it\<close>

text \<open>
  \<open>filepath_Join\<close>, \<open>filepath_Abs\<close>, \<open>os_Open\<close> (\<open>None\<close>: opened; the handle's
  \<^verbatim>\<open>Name()\<close> is the path it was opened with), \<open>Readdir\<close> (of the opened directory, all
  entries), \<open>os_Stat\<close>, and the repository's helpers \<open>isFile\<close> and
  \<open>mkdirAllIgnorePerm\<close> (\<open>None\<close>: the directory exists afterwards), whose sources
  are not part of this slice and which are taken as they answer.
\<close>

record os_deps =
  filepath_Join :: "string list \<Rightarrow> string"
  filepath_Abs :: "string \<Rightarrow> go_error + string"
  mkdirAllIgnorePerm :: "string \<Rightarrow> go_error option"
  isFile :: "string \<Rightarrow> bool"
  os_Open :: "string \<Rightarrow> go_error option"
  Readdir :: "string \<Rightarrow> go_error + FileInfo list"
  os_Stat :: "string \<Rightarrow> go_error + FileInfo"

text \<open>
  Modelled from the spec: the constants \<^verbatim>\<open>publicCertFile\<close>, \<^verbatim>\<open>privateKeyFile\<close>,
  \<^verbatim>\<open>certsDir\<close> and \<^verbatim>\<open>certsCADir\<close> are declared outside this slice; the spec's
  directory layout names them \<^verbatim>\<open>public.crt\<close>, \<^verbatim>\<open>private.key\<close>, \<^verbatim>\<open>certs\<close> and
  \<^verbatim>\<open>CAs\<close>.
\<close>

definition publicCertFile :: string where "publicCertFile = ''public.crt''"
definition privateKeyFile :: string where "privateKeyFile = ''private.key''"
definition certsDir :: string where "certsDir = ''certs''"
definition certsCADir :: string where "certsCADir = ''CAs''"

subsection \<open>The process environment and strings\<close>

type_synonym environ = "string \<rightharpoonup> string"

text \<open>
  Modelled from the spec: \<^verbatim>\<open>env.IsSet\<close> and \<^verbatim>\<open>env.Get\<close> (\<^verbatim>\<open>pkg/env\<close>) are outside
  this slice. The spec speaks of a signal that is present in the environment, and of a
  value that defaults when the variable is absent.
\<close>

definition env_IsSet :: "environ \<Rightarrow> string \<Rightarrow> bool" where
  "env_IsSet env key = (env key \<noteq> None)"

definition env_Get :: "environ \<Rightarrow> string \<Rightarrow> string \<Rightarrow> string" where
  "env_Get env key defaultValue = (case env key of None \<Rightarrow> defaultValue | Some v \<Rightarrow> v)"

text \<open>
  Modelled from the spec: the names of the environment variables and the value
  separator are constants of \<^verbatim>\<open>cmd/config\<close>, outside this slice. The spec lists the
  variables under the names below and calls the lists comma-delimited.
\<close>

definition EnvDomain :: string where "EnvDomain = ''DOMAIN''"
definition EnvPublicIPs :: string where "EnvPublicIPs = ''PUBLIC_IPS''"
definition EnvKMSSecretKey :: string where "EnvKMSSecretKey = ''KMS_SECRET_KEY''"
definition EnvKMSMasterKey :: string where "EnvKMSMasterKey = ''KMS_MASTER_KEY''"
definition EnvKESEndpoint :: string where "EnvKESEndpoint = ''KES_ENDPOINT''"
definition EnvKESKeyName :: string where "EnvKESKeyName = ''KES_KEY_NAME''"
definition EnvKESClientCert :: string where "EnvKESClientCert = ''KES_CLIENT_CERT''"
definition EnvKESClientKey :: string where "EnvKESClientKey = ''KES_CLIENT_KEY''"
definition EnvKESServerCA :: string where "EnvKESServerCA = ''KES_SERVER_CA''"
definition ValueSeparator :: char where "ValueSeparator = CHR '',''"

text \<open>
  \<^verbatim>\<open>strings.Split(s, sep)\<close> for a separator of one character: the pieces of \<open>s\<close>
  between the separators, one more than there are separators (so one empty piece for
  the empty string).
\<close>

fun Split :: "string \<Rightarrow> char \<Rightarrow> string list" where
  "Split [] sep = [[]]"
| "Split (c # cs) sep =
     (if c = sep then [] # Split cs sep
      else (case Split cs sep of
              [] \<Rightarrow> [[c]]
            | piece # pieces \<Rightarrow> (c # piece) # pieces))"

text \<open>
  \<^verbatim>\<open>strings.SplitN(s, sep, 2)\<close> for a separator of one character: \<open>s\<close> itself when
  it has no separator, else what stands before the first separator and what stands
  after it.
\<close>

definition SplitN2 :: "string \<Rightarrow> char \<Rightarrow> string list" where
  "SplitN2 s sep =
     (if sep \<in> set s
      then [takeWhile (\<lambda>c. c \<noteq> sep) s, tl (dropWhile (\<lambda>c. c \<noteq> sep) s)]
      else [s])"

subsection \<open>Directories: newConfigDirFromCtx and handleCommonCmdArgs\<close>

text \<open>
  What the code asks of the CLI context \<^verbatim>\<open>ctx\<close>: \<^verbatim>\<open>ctx.IsSet\<close>, \<^verbatim>\<open>ctx.String\<close>,
  \<^verbatim>\<open>ctx.GlobalIsSet\<close>, \<^verbatim>\<open>ctx.GlobalString\<close>, and the same two global lookups on
  \<^verbatim>\<open>ctx.Parent()\<close>. Each takes the name of an option.
\<close>

record cli_Context =
  IsSet :: "string \<Rightarrow> bool"
  String :: "string \<Rightarrow> string"
  GlobalIsSet :: "string \<Rightarrow> bool"
  GlobalString :: "string \<Rightarrow> string"
  Parent_GlobalIsSet :: "string \<Rightarrow> bool"
  Parent_GlobalString :: "string \<Rightarrow> string"

record ConfigDir =
  path :: string

text \<open>
  \<^verbatim>\<open>newConfigDirFromCtx\<close>. \<open>getDefaultDir\<close> is what the function argument of that name
  returns. The last argument and the second component of the result are the
  directories \<^verbatim>\<open>mkdirAllIgnorePerm\<close> was called on so far, in the order of the calls.
  The inner \<open>case\<close> scrutinee is the \<^verbatim>\<open>switch\<close>, yielding \<^verbatim>\<open>dir\<close> and \<^verbatim>\<open>dirSet\<close>.
\<close>

definition newConfigDirFromCtx ::
  "os_deps \<Rightarrow> cli_Context \<Rightarrow> string \<Rightarrow> string \<Rightarrow> string list
     \<Rightarrow> (fatal + ConfigDir \<times> bool) \<times> string list" where
  "newConfigDirFromCtx os ctx option getDefaultDir mkdirs =
     (case
        (if IsSet ctx option then Inr (String ctx option, True)
         else if GlobalIsSet ctx option
         then
           (let dir = GlobalString ctx option
            in if dir = '''' \<or> dir = getDefaultDir
               then (if Parent_GlobalIsSet ctx option
                     then Inr (Parent_GlobalString ctx option, True)
                     else Inr (dir, False))
               else Inr (dir, True))
         else
           (let dir = getDefaultDir
            in if dir = ''''
               then Inl (Fatal errInvalidArgument ''%s option must be provided'' [option])
               else Inr (dir, False)))
      of
        Inl f \<Rightarrow> (Inl f, mkdirs)
      | Inr (dir, dirSet) \<Rightarrow>
          (if dir = ''''
           then (Inl (Fatal (ErrorsNew ''empty directory'') ''%s directory cannot be empty''
                        [option]),
                 mkdirs)
           else
             (case filepath_Abs os dir of
                Inl err \<Rightarrow>
                  (Inl (Fatal err ''Unable to fetch absolute path for %s=%s'' [option, dir]),
                   mkdirs)
              | Inr dirAbs \<Rightarrow>
                  (case mkdirAllIgnorePerm os dirAbs of
                     Some err \<Rightarrow>
                       (Inl (Fatal err ''Unable to create directory specified %s=%s''
                               [option, dir]),
                        mkdirs @ [dirAbs])
                   | None \<Rightarrow> (Inr (\<lparr>path = dirAbs\<rparr>, dirSet), mkdirs @ [dirAbs])))))"

text \<open>
  The process-wide variables \<^verbatim>\<open>handleCommonCmdArgs\<close> assigns: the fields of
  \<^verbatim>\<open>globalCLIContext\<close>, the switches of the logger, the three directories, and the
  directories \<^verbatim>\<open>mkdirAllIgnorePerm\<close> was called on.
\<close>

record cmd_state =
  JSON :: bool
  Quiet :: bool
  Anonymous :: bool
  Addr :: string
  StrictS3Compat :: bool
  loggerJSON :: bool
  loggerQuiet :: bool
  loggerAnonymous :: bool
  globalConfigDir :: ConfigDir
  globalCertsDir :: ConfigDir
  globalCertsCADir :: ConfigDir
  mkdirCalls :: "string list"

text \<open>
  The first half of \<^verbatim>\<open>handleCommonCmdArgs\<close> (lines 197 to 226): the flags and the
  address. \<open>GlobalMinioDefaultPort\<close> is the constant of that name, declared outside
  this slice. \<^verbatim>\<open>logger.EnableJSON()\<close>, \<^verbatim>\<open>EnableQuiet()\<close> and \<^verbatim>\<open>EnableAnonymous()\<close>
  turn a switch of the logger on.
\<close>

definition handleCommonCmdArgs_flags :: "string \<Rightarrow> cli_Context \<Rightarrow> cmd_state \<Rightarrow> cmd_state" where
  "handleCommonCmdArgs_flags GlobalMinioDefaultPort ctx st =
     (let st = st\<lparr>JSON := IsSet ctx ''json'' \<or> GlobalIsSet ctx ''json''\<rparr>;
          st = (if JSON st then st\<lparr>loggerJSON := True\<rparr> else st);
          st = st\<lparr>Quiet := IsSet ctx ''quiet'' \<or> GlobalIsSet ctx ''quiet''\<rparr>;
          st = (if Quiet st then st\<lparr>loggerQuiet := True\<rparr> else st);
          st = st\<lparr>Anonymous := IsSet ctx ''anonymous'' \<or> GlobalIsSet ctx ''anonymous''\<rparr>;
          st = (if Anonymous st then st\<lparr>loggerAnonymous := True\<rparr> else st);
          st = st\<lparr>Addr := GlobalString ctx ''address''\<rparr>;
          st = (if Addr st = '''' \<or> Addr st = '':'' @ GlobalMinioDefaultPort
                then st\<lparr>Addr := String ctx ''address''\<rparr> else st);
          st = st\<lparr>StrictS3Compat := True\<rparr>;
          st = (if IsSet ctx ''no-compat'' \<or> GlobalIsSet ctx ''no-compat''
                then st\<lparr>StrictS3Compat := False\<rparr> else st)
      in st)"

text \<open>
  \<^verbatim>\<open>handleCommonCmdArgs\<close>: the flags, then the directories (lines 228 to 243).
  \<open>defaultConfigDir\<close> and \<open>defaultCertsDir\<close> are what \<^verbatim>\<open>defaultConfigDir.Get()\<close> and
  \<^verbatim>\<open>defaultCertsDir.Get()\<close> return. The result is the fatal error that ended the
  process, if one did, and the state at that point.
\<close>

definition handleCommonCmdArgs ::
  "os_deps \<Rightarrow> string \<Rightarrow> string \<Rightarrow> string \<Rightarrow> cli_Context \<Rightarrow> cmd_state
     \<Rightarrow> fatal option \<times> cmd_state" where
  "handleCommonCmdArgs os GlobalMinioDefaultPort defaultConfigDir defaultCertsDir ctx st0 =
     (let st = handleCommonCmdArgs_flags GlobalMinioDefaultPort ctx st0
      in
        (case newConfigDirFromCtx os ctx ''config-dir'' defaultConfigDir (mkdirCalls st) of
           (Inl f, calls) \<Rightarrow> (Some f, st\<lparr>mkdirCalls := calls\<rparr>)
         | (Inr (configDir, configSet), calls) \<Rightarrow>
             (let st = st\<lparr>globalConfigDir := configDir, mkdirCalls := calls\<rparr>
              in
                (case newConfigDirFromCtx os ctx ''certs-dir'' defaultCertsDir (mkdirCalls st) of
                   (Inl f, calls) \<Rightarrow> (Some f, st\<lparr>mkdirCalls := calls\<rparr>)
                 | (Inr (certsDir', certsSet), calls) \<Rightarrow>
                     (let st = st\<lparr>globalCertsDir := certsDir', mkdirCalls := calls\<rparr>;
                          st = (if \<not> certsSet \<and> configSet
                                then st\<lparr>globalCertsDir :=
                                       \<lparr>path = filepath_Join os
                                                 [path (globalConfigDir st), certsDir]\<rparr>\<rparr>
                                else st);
                          st = st\<lparr>globalCertsCADir :=
                                  \<lparr>path = filepath_Join os
                                            [path (globalCertsDir st), certsCADir]\<rparr>\<rparr>;
                          st = st\<lparr>mkdirCalls :=
                                  mkdirCalls st @ [path (globalCertsCADir st)]\<rparr>
                      in
                        (case mkdirAllIgnorePerm os (path (globalCertsCADir st)) of
                           Some err \<Rightarrow>
                             (Some (Fatal err ''Unable to create certs CA directory at %s''
                                      [path (globalCertsCADir st)]),
                              st)
                         | None \<Rightarrow> (None, st)))))))"

subsection \<open>Domains: the domain part of handleCommonEnvVars (lines 264 to 281)\<close>

text \<open>
  Modelled from the spec: \<^verbatim>\<open>lcpSuffix\<close> is declared outside this slice. The spec says
  what it computes: the longest common suffix string shared across all the strings of
  the list. Lemma \<open>lcpSuffix_longest\<close> shows that the definition meets these words.
\<close>

fun lcpSuffix :: "string list \<Rightarrow> string" where
  "lcpSuffix [] = []"
| "lcpSuffix [s] = s"
| "lcpSuffix (s # ss) = rev (longest_common_prefix (rev s) (rev (lcpSuffix ss)))"

text \<open>
  The first loop: each piece is checked with \<^verbatim>\<open>dns2.IsDomainName\<close> (a library call,
  the first argument) and appended to \<^verbatim>\<open>globalDomainNames\<close>.
\<close>

fun appendDomains :: "(string \<Rightarrow> bool) \<Rightarrow> string list \<Rightarrow> string list \<Rightarrow> fatal + string list" where
  "appendDomains IsDomainName [] globalDomainNames = Inr globalDomainNames"
| "appendDomains IsDomainName (domainName # rest) globalDomainNames =
     (if \<not> IsDomainName domainName
      then Inl (Fatal (ConfigErr ''ErrInvalidDomainValue'' ''Unknown value `%s`'' [domainName])
                  ''Invalid MINIO_DOMAIN value in environment variable'' [])
      else appendDomains IsDomainName rest (globalDomainNames @ [domainName]))"

text \<open>
  The second loop, over the sorted names (its third argument is what is left of them):
  it ends the process at the first name equal to \<^verbatim>\<open>lcpSuf\<close> when there is more than
  one name.
\<close>

fun checkOverlap :: "string \<Rightarrow> string list \<Rightarrow> string list \<Rightarrow> fatal option" where
  "checkOverlap lcpSuf globalDomainNames [] = None"
| "checkOverlap lcpSuf globalDomainNames (domainName # rest) =
     (if domainName = lcpSuf \<and> length globalDomainNames > 1
      then Some (Fatal (ConfigErr ''ErrOverlappingDomainValue''
                          ''Overlapping domains `%s` not allowed'' globalDomainNames)
                   ''Invalid MINIO_DOMAIN value in environment variable'' [])
      else checkOverlap lcpSuf globalDomainNames rest)"

text \<open>
  The domain part of \<^verbatim>\<open>handleCommonEnvVars\<close>: the state is \<^verbatim>\<open>globalDomainNames\<close>, and
  \<^verbatim>\<open>sort.Strings\<close> orders strings byte by byte, a proper prefix first.
\<close>

definition handleDomains ::
  "(string \<Rightarrow> bool) \<Rightarrow> environ \<Rightarrow> string list \<Rightarrow> fatal + string list" where
  "handleDomains IsDomainName env globalDomainNames =
     (let domains = env_Get env EnvDomain ''''
      in if length domains \<noteq> 0
         then
           (case appendDomains IsDomainName (Split domains ValueSeparator) globalDomainNames of
              Inl f \<Rightarrow> Inl f
            | Inr names \<Rightarrow>
                (let sorted = sort names;
                     lcpSuf = lcpSuffix sorted
                 in (case checkOverlap lcpSuf sorted sorted of
                       Some f \<Rightarrow> Inl f
                     | None \<Rightarrow> Inr sorted)))
         else Inr globalDomainNames)"

text \<open>
  The value whose pieces are the strings of a list: the strings with the separator
  between them (\<^verbatim>\<open>strings.Join\<close>). It is used to state that every list of domains is
  the list of pieces of some \<^verbatim>\<open>DOMAIN\<close> value.
\<close>

fun joinWith :: "char \<Rightarrow> string list \<Rightarrow> string" where
  "joinWith sep [] = []"
| "joinWith sep [s] = s"
| "joinWith sep (s # ss) = s @ sep # joinWith sep ss"

subsection \<open>Public addresses: the address part of handleCommonEnvVars (lines 283 to 309)\<close>

text \<open>
  The library calls of this part: \<^verbatim>\<open>net.ParseIP\<close> (true when the result is not
  \<^verbatim>\<open>nil\<close>), \<^verbatim>\<open>net.LookupHost\<close>, and the repository's \<^verbatim>\<open>mustGetLocalIP4\<close> and
  \<^verbatim>\<open>globalEndpoints.Hostnames\<close>, declared outside this slice and taken as they answer.
  A \<^verbatim>\<open>set.StringSet\<close> is a set of strings.
\<close>

record net_deps =
  net_ParseIP :: "string \<Rightarrow> bool"
  net_LookupHost :: "string \<Rightarrow> go_error + string list"
  mustGetLocalIP4 :: "string set"
  globalEndpoints_Hostnames :: "string list"

text \<open>\<^verbatim>\<open>for _, x := range xs { s.Add(x) }\<close>\<close>

definition addAll :: "string set \<Rightarrow> string list \<Rightarrow> string set" where
  "addAll s xs = foldl (\<lambda>s x. insert x s) s xs"

text \<open>The loop over \<^verbatim>\<open>minioEndpoints\<close>; the last argument is \<^verbatim>\<open>domainIPs\<close>.\<close>

fun addEndpoints :: "net_deps \<Rightarrow> string list \<Rightarrow> string set \<Rightarrow> fatal + string set" where
  "addEndpoints n [] domainIPs = Inr domainIPs"
| "addEndpoints n (endpoint # rest) domainIPs =
     (if \<not> net_ParseIP n endpoint
      then
        (case net_LookupHost n endpoint of
           Inl err \<Rightarrow>
             Inl (Fatal err
               ''Unable to initialize MinIO server with [%s] invalid entry found in MINIO_PUBLIC_IPS''
               [endpoint])
         | Inr addrs \<Rightarrow> addEndpoints n rest (insert endpoint (addAll domainIPs addrs)))
      else addEndpoints n rest (insert endpoint domainIPs))"

text \<open>
  The address part of \<^verbatim>\<open>handleCommonEnvVars\<close>. The result is the set the code hands to
  \<^verbatim>\<open>updateDomainIPs\<close> (declared outside this slice).
\<close>

definition handlePublicIPs :: "net_deps \<Rightarrow> environ \<Rightarrow> fatal + string set" where
  "handlePublicIPs n env =
     (let publicIPs = env_Get env EnvPublicIPs ''''
      in if length publicIPs \<noteq> 0
         then addEndpoints n (Split publicIPs ValueSeparator) {}
         else Inr (addAll (mustGetLocalIP4 n) (globalEndpoints_Hostnames n)))"

text \<open>
  The addresses the non-literal pieces resolve to: the union, over the pieces that do
  not parse as an address, of what \<^verbatim>\<open>net.LookupHost\<close> returns for them.
\<close>

definition resolvedAddrs :: "net_deps \<Rightarrow> string list \<Rightarrow> string set" where
  "resolvedAddrs n tokens =
     (\<Union>t \<in> set tokens.
        if net_ParseIP n t then {}
        else (case net_LookupHost n t of Inl err \<Rightarrow> {} | Inr addrs \<Rightarrow> set addrs))"

subsection \<open>Key management: the KMS part of handleCommonEnvVars (lines 334 to 385)\<close>

text \<open>
  \<^verbatim>\<open>GlobalKMS\<close> holds a value of an interface type. The three calls that build such a
  value return values of different dynamic types; the constructor records which call
  built it, for any type \<open>'k\<close> of what the calls return.
\<close>

datatype 'k KMS = StaticSecret 'k | LegacyMasterKey 'k | RemoteEndpoint 'k

record 't KesConfig =
  Enabled :: bool
  Endpoint :: "string list"
  DefaultKeyID :: string
  CertFile :: string
  KeyFile :: string
  CAPath :: string
  Transport :: 't

text \<open>
  The library calls of this part: \<^verbatim>\<open>kms.Parse\<close>, \<^verbatim>\<open>hex.DecodeString\<close>, \<^verbatim>\<open>kms.New\<close>,
  \<^verbatim>\<open>crypto.ParseKESEndpoints\<close>, \<^verbatim>\<open>crypto.NewKes\<close>, and the HTTP transport the code
  builds for the KES client.
\<close>

record ('k, 't) kms_deps =
  kms_Parse :: "string \<Rightarrow> go_error + 'k"
  hex_DecodeString :: "string \<Rightarrow> go_error + 8 word list"
  kms_New :: "string \<Rightarrow> 8 word list \<Rightarrow> go_error + 'k"
  crypto_ParseKESEndpoints :: "string \<Rightarrow> go_error + string list"
  crypto_NewKes :: "'t KesConfig \<Rightarrow> go_error + 'k"
  newTransport :: 't

text \<open>
  The state this part changes: \<^verbatim>\<open>GlobalKMS\<close> and the log, to which \<^verbatim>\<open>logger.LogIf\<close>
  appends the error it is given.
\<close>

record 'k kms_state =
  GlobalKMS :: "'k KMS option"
  logged :: "go_error list"

text \<open>
  The KMS part of \<^verbatim>\<open>handleCommonEnvVars\<close>. The first \<^verbatim>\<open>if\<close> and the two cases of the
  \<^verbatim>\<open>switch\<close> are the three tests before the \<open>case\<close>; the \<open>case\<close> scrutinee is the
  \<^verbatim>\<open>if ... else if\<close> on the secret key and the master key, and its \<open>Inr\<close> branch is the
  last \<^verbatim>\<open>if\<close>, on the KES endpoint, which runs on the state the chain before it left.
  \<open>caDir\<close> is \<^verbatim>\<open>globalCertsCADir.Get()\<close>.
\<close>

definition handleKMS ::
  "('k, 't) kms_deps \<Rightarrow> environ \<Rightarrow> string \<Rightarrow> 'k kms_state \<Rightarrow> fatal + 'k kms_state" where
  "handleKMS d env caDir st =
     (if env_IsSet env EnvKMSSecretKey \<and> env_IsSet env EnvKESEndpoint
      then Inl (Fatal (ErrorsNew ''ambigious KMS configuration'')
                  ''The environment contains %q as well as %q''
                  [EnvKMSSecretKey, EnvKESEndpoint])
      else if env_IsSet env EnvKMSSecretKey \<and> env_IsSet env EnvKESEndpoint
      then Inl (Fatal (ErrorsNew ''ambigious KMS configuration'')
                  ''The environment contains %q as well as %q''
                  [EnvKMSSecretKey, EnvKESEndpoint])
      else if env_IsSet env EnvKMSMasterKey \<and> env_IsSet env EnvKESEndpoint
      then Inl (Fatal (ErrorsNew ''ambigious KMS configuration'')
                  ''The environment contains %q as well as %q''
                  [EnvKMSMasterKey, EnvKESEndpoint])
      else
        (case
           (if env_IsSet env EnvKMSSecretKey
            then
              (case kms_Parse d (env_Get env EnvKMSSecretKey '''') of
                 Inl err \<Rightarrow>
                   Inl (Fatal err
                     ''Unable to parse the KMS secret key inherited from the shell environment'' [])
               | Inr kms \<Rightarrow> Inr (st\<lparr>GlobalKMS := Some (StaticSecret kms)\<rparr>))
            else if env_IsSet env EnvKMSMasterKey
            then
              (let st1 = st\<lparr>logged := logged st @ [ErrorsNew ''legacy KMS configuration'']\<rparr>;
                   v = SplitN2 (env_Get env EnvKMSMasterKey '''') CHR '':''
               in if length v \<noteq> 2
                  then Inl (Fatal (ErrorsNew (''invalid '' @ EnvKMSMasterKey))
                         ''Unable to parse the KMS secret key inherited from the shell environment'' [])
                  else
                    (case hex_DecodeString d (v ! 1) of
                       Inl err \<Rightarrow>
                         Inl (Fatal err
                           ''Unable to parse the KMS secret key inherited from the shell environment'' [])
                     | Inr secretKey \<Rightarrow>
                         (case kms_New d (v ! 0) secretKey of
                            Inl err \<Rightarrow>
                              Inl (Fatal err
                                ''Unable to parse the KMS secret key inherited from the shell environment'' [])
                          | Inr kms \<Rightarrow> Inr (st1\<lparr>GlobalKMS := Some (LegacyMasterKey kms)\<rparr>))))
            else Inr st)
         of
           Inl f \<Rightarrow> Inl f
         | Inr st2 \<Rightarrow>
             (if env_IsSet env EnvKESEndpoint
              then
                (case crypto_ParseKESEndpoints d (env_Get env EnvKESEndpoint '''') of
                   Inl err \<Rightarrow>
                     Inl (Fatal err
                       ''Unable to parse the KES endpoints inherited from the shell environment'' [])
                 | Inr kesEndpoints \<Rightarrow>
                     (case crypto_NewKes d
                             \<lparr>Enabled = True,
                              Endpoint = kesEndpoints,
                              DefaultKeyID = env_Get env EnvKESKeyName '''',
                              CertFile = env_Get env EnvKESClientCert '''',
                              KeyFile = env_Get env EnvKESClientKey '''',
                              CAPath = env_Get env EnvKESServerCA caDir,
                              Transport = newTransport d\<rparr> of
                        Inl err \<Rightarrow>
                          Inl (Fatal err
                            ''Unable to initialize a connection to KES as specified by the shell environment'' [])
                      | Inr kms \<Rightarrow> Inr (st2\<lparr>GlobalKMS := Some (RemoteEndpoint kms)\<rparr>)))
              else Inr st2)))"

subsection \<open>Certificates: getTLSConfig\<close>

text \<open>
  The parsers of certificate material: \<^verbatim>\<open>config.ParsePublicCertFile\<close> and
  \<^verbatim>\<open>config.LoadX509KeyPair\<close>, over any type \<open>'c\<close> of parsed X.509 certificates and any
  type \<open>'k\<close> of loaded key pairs.
\<close>

record ('c, 'k) cert_deps =
  ParsePublicCertFile :: "string \<Rightarrow> go_error + 'c list"
  LoadX509KeyPair :: "string \<Rightarrow> string \<Rightarrow> go_error + 'k"

text \<open>
  Modelled from the spec: \<^verbatim>\<open>getPublicCertFile\<close> and \<^verbatim>\<open>getPrivateKeyFile\<close> are
  declared outside this slice; the spec's layout places the root pair at
  \<^verbatim>\<open><certsDir>/public.crt\<close> and \<^verbatim>\<open><certsDir>/private.key\<close>. The argument is
  \<^verbatim>\<open>globalCertsDir.Get()\<close>.
\<close>

definition getPublicCertFile :: "os_deps \<Rightarrow> string \<Rightarrow> string" where
  "getPublicCertFile os certsRoot = filepath_Join os [certsRoot, publicCertFile]"

definition getPrivateKeyFile :: "os_deps \<Rightarrow> string \<Rightarrow> string" where
  "getPrivateKeyFile os certsRoot = filepath_Join os [certsRoot, privateKeyFile]"

text \<open>
  Modelled from the spec: the certificate manager (\<^verbatim>\<open>pkg/certs\<close>) is outside this
  slice. The spec describes it as the aggregate of the certificate entries added to it,
  seeded with the root pair; an entry that fails to load is not added. A manager is the
  list of the entries it holds, each the certificate path, the key path and the loaded
  pair, in the order they were added.
\<close>

type_synonym 'k Manager = "(string \<times> string \<times> 'k) list"

definition NewManager :: "('c, 'k) cert_deps \<Rightarrow> string \<Rightarrow> string \<Rightarrow> go_error + 'k Manager" where
  "NewManager cd certFile keyFile =
     (case LoadX509KeyPair cd certFile keyFile of
        Inl err \<Rightarrow> Inl err
      | Inr pair \<Rightarrow> Inr [(certFile, keyFile, pair)])"

definition AddCertificate ::
  "('c, 'k) cert_deps \<Rightarrow> 'k Manager \<Rightarrow> string \<Rightarrow> string \<Rightarrow> go_error option \<times> 'k Manager" where
  "AddCertificate cd manager certFile keyFile =
     (case LoadX509KeyPair cd certFile keyFile of
        Inl err \<Rightarrow> (Some err, manager)
      | Inr pair \<Rightarrow> (None, manager @ [(certFile, keyFile, pair)]))"

text \<open>
  The body of the loop over the entries of the certs directory (lines 437 to 467). The
  state is the manager and the errors logged so far (\<^verbatim>\<open>logger.LogIf\<close> with a non-nil
  error appends one). Every \<^verbatim>\<open>continue\<close> returns the state unchanged. For a symbolic
  link the variable \<^verbatim>\<open>file\<close> is replaced by what \<^verbatim>\<open>os.Stat\<close> returns, and the paths
  below are built from the name of that value.
\<close>

definition scanEntry ::
  "os_deps \<Rightarrow> ('c, 'k) cert_deps \<Rightarrow> string \<Rightarrow> 'k Manager \<times> go_error list \<Rightarrow> FileInfo
     \<Rightarrow> 'k Manager \<times> go_error list" where
  "scanEntry os cd root st file =
     (if IsRegular (Mode file) \<or> Name file = ''CAs'' \<or> HasPrefix (Name file) ''..''
      then st
      else
        (case
           (if Mode file AND ModeSymlink = ModeSymlink
            then (case os_Stat os (filepath_Join os [root, Name file]) of
                    Inl err \<Rightarrow> None
                  | Inr file' \<Rightarrow> if \<not> IsDir (Mode file') then None else Some file')
            else Some file)
         of
           None \<Rightarrow> st
         | Some file' \<Rightarrow>
             (let certFile = filepath_Join os [root, Name file', publicCertFile];
                  keyFile = filepath_Join os [root, Name file', privateKeyFile]
              in if \<not> isFile os certFile \<or> \<not> isFile os keyFile
                 then st
                 else
                   (case AddCertificate cd (fst st) certFile keyFile of
                      (Some err, manager') \<Rightarrow>
                        (manager',
                         snd st @ [Errorf ''Unable to load TLS certificate '%s,%s': %w''
                                     [certFile, keyFile] err])
                    | (None, manager') \<Rightarrow> (manager', snd st)))))"

text \<open>\<^verbatim>\<open>for _, file := range files { ... }\<close>\<close>

definition scanEntries ::
  "os_deps \<Rightarrow> ('c, 'k) cert_deps \<Rightarrow> string \<Rightarrow> FileInfo list \<Rightarrow> 'k Manager \<times> go_error list
     \<Rightarrow> 'k Manager \<times> go_error list" where
  "scanEntries os cd root files st = foldl (scanEntry os cd root) st files"

text \<open>
  The loop body, said as the spec says it. \<open>excludedEntry\<close> is step 4: a regular
  file, the name \<^verbatim>\<open>CAs\<close>, a name that begins with two dots, or a symbolic link whose
  resolution fails or whose target is not a directory. \<open>entryTarget\<close> is the entry
  the paths are built from (the link's target for a symbolic link that resolves),
  \<open>incompleteEntry\<close> is step 5 (one of the two files is missing), and
  \<open>entryOutcome\<close> is what one entry adds to the manager and to the log.
\<close>

definition excludedEntry :: "os_deps \<Rightarrow> string \<Rightarrow> FileInfo \<Rightarrow> bool" where
  "excludedEntry os root file =
     (IsRegular (Mode file) \<or> Name file = ''CAs'' \<or> HasPrefix (Name file) ''..''
      \<or> (Mode file AND ModeSymlink = ModeSymlink
          \<and> (case os_Stat os (filepath_Join os [root, Name file]) of
                Inl err \<Rightarrow> True
              | Inr target \<Rightarrow> \<not> IsDir (Mode target))))"

definition entryTarget :: "os_deps \<Rightarrow> string \<Rightarrow> FileInfo \<Rightarrow> FileInfo" where
  "entryTarget os root file =
     (if Mode file AND ModeSymlink = ModeSymlink
      then (case os_Stat os (filepath_Join os [root, Name file]) of
              Inl err \<Rightarrow> file
            | Inr target \<Rightarrow> target)
      else file)"

definition entryCertFile :: "os_deps \<Rightarrow> string \<Rightarrow> FileInfo \<Rightarrow> string" where
  "entryCertFile os root file =
     filepath_Join os [root, Name (entryTarget os root file), publicCertFile]"

definition entryKeyFile :: "os_deps \<Rightarrow> string \<Rightarrow> FileInfo \<Rightarrow> string" where
  "entryKeyFile os root file =
     filepath_Join os [root, Name (entryTarget os root file), privateKeyFile]"

definition incompleteEntry :: "os_deps \<Rightarrow> string \<Rightarrow> FileInfo \<Rightarrow> bool" where
  "incompleteEntry os root file =
     (\<not> isFile os (entryCertFile os root file) \<or> \<not> isFile os (entryKeyFile os root file))"

definition loadError :: "string \<Rightarrow> string \<Rightarrow> go_error \<Rightarrow> go_error" where
  "loadError certFile keyFile err =
     Errorf ''Unable to load TLS certificate '%s,%s': %w'' [certFile, keyFile] err"

definition entryOutcome ::
  "os_deps \<Rightarrow> ('c, 'k) cert_deps \<Rightarrow> string \<Rightarrow> FileInfo \<Rightarrow> 'k Manager \<times> go_error list" where
  "entryOutcome os cd root file =
     (if excludedEntry os root file \<or> incompleteEntry os root file then ([], [])
      else
        (case LoadX509KeyPair cd (entryCertFile os root file) (entryKeyFile os root file) of
           Inl err \<Rightarrow>
             ([], [loadError (entryCertFile os root file) (entryKeyFile os root file) err])
         | Inr pair \<Rightarrow>
             ([(entryCertFile os root file, entryKeyFile os root file, pair)], [])))"


text \<open>
  \<^verbatim>\<open>getTLSConfig\<close>. The arguments are the two records of library calls, the value of
  \<^verbatim>\<open>globalCertsDir.Get()\<close> and the errors logged so far; the result is the four values
  the Go function returns (\<^verbatim>\<open>nil\<close> certificates are \<open>[]\<close>, a \<^verbatim>\<open>nil\<close> manager and a
  \<^verbatim>\<open>nil\<close> error are \<open>None\<close>) and the log afterwards.
\<close>

definition getTLSConfig ::
  "os_deps \<Rightarrow> ('c, 'k) cert_deps \<Rightarrow> string \<Rightarrow> go_error list
     \<Rightarrow> ('c list \<times> 'k Manager option \<times> bool \<times> go_error option) \<times> go_error list" where
  "getTLSConfig os cd certsRoot log =
     (if \<not> (isFile os (getPublicCertFile os certsRoot)
             \<and> isFile os (getPrivateKeyFile os certsRoot))
      then (([], None, False, None), log)
      else
        (case ParsePublicCertFile cd (getPublicCertFile os certsRoot) of
           Inl err \<Rightarrow> (([], None, False, Some err), log)
         | Inr x509Certs \<Rightarrow>
             (case NewManager cd (getPublicCertFile os certsRoot)
                     (getPrivateKeyFile os certsRoot) of
                Inl err \<Rightarrow> (([], None, False, Some err), log)
              | Inr manager \<Rightarrow>
                  (case os_Open os certsRoot of
                     Some err \<Rightarrow> (([], None, False, Some err), log)
                   | None \<Rightarrow>
                       (case Readdir os certsRoot of
                          Inl err \<Rightarrow> (([], None, False, Some err), log)
                        | Inr files \<Rightarrow>
                            (case scanEntries os cd certsRoot files (manager, log) of
                               (manager', log') \<Rightarrow>
                                 ((x509Certs, Some manager', True, None), log')))))))"

subsection \<open>A certs directory to run the loader on\<close>

text \<open>
  The directory \<^verbatim>\<open>/certs\<close> of the spec's example: the root pair, the directory
  \<^verbatim>\<open>foo.com\<close> with both files and the directory \<^verbatim>\<open>bar.com\<close> with \<^verbatim>\<open>public.crt\<close> only. Paths are joined with a slash, every present
  file parses and loads.
\<close>

fun joinSlash :: "string list \<Rightarrow> string" where
  "joinSlash [] = []"
| "joinSlash [p] = p"
| "joinSlash (p # ps) = p @ ''/'' @ joinSlash ps"

definition exampleFiles :: "string list" where
  "exampleFiles =
     [''/certs/public.crt'', ''/certs/private.key'',
      ''/certs/foo.com/public.crt'', ''/certs/foo.com/private.key'',
      ''/certs/bar.com/public.crt'']"

definition exampleEntries :: "FileInfo list" where
  "exampleEntries =
     [\<lparr>Name = ''public.crt'', Mode = 0x1A4\<rparr>,
      \<lparr>Name = ''private.key'', Mode = 0x180\<rparr>,
      \<lparr>Name = ''foo.com'', Mode = 0x800001ED\<rparr>,
      \<lparr>Name = ''bar.com'', Mode = 0x800001ED\<rparr>]"

definition exampleOS :: os_deps where
  "exampleOS =
     \<lparr>filepath_Join = joinSlash,
      filepath_Abs = (\<lambda>p. Inr p),
      mkdirAllIgnorePerm = (\<lambda>p. None),
      isFile = (\<lambda>p. p \<in> set exampleFiles),
      os_Open = (\<lambda>p. if p = ''/certs'' then None
                       else Some (LibErr ''no such file or directory'')),
      Readdir = (\<lambda>p. if p = ''/certs'' then Inr exampleEntries
                       else Inl (LibErr ''not a directory'')),
      os_Stat = (\<lambda>p. if p = ''/certs/tofile'' then Inr \<lparr>Name = ''tofile'', Mode = 0x1A4\<rparr>
                       else Inl (LibErr ''no such file or directory''))\<rparr>"

text \<open>
  Entries the scan passes over: the reserved directory, a name with two leading dots, a
  dangling symbolic link and a symbolic link to a regular file (mode bits
  \<^verbatim>\<open>L|0777\<close>).
\<close>

definition entryCAs :: FileInfo where
  "entryCAs = \<lparr>Name = ''CAs'', Mode = 0x800001C0\<rparr>"

definition entryDots :: FileInfo where
  "entryDots = \<lparr>Name = ''..data'', Mode = 0x800001ED\<rparr>"

definition entryDangling :: FileInfo where
  "entryDangling = \<lparr>Name = ''dangling'', Mode = 0x80001FF\<rparr>"

definition entryToFile :: FileInfo where
  "entryToFile = \<lparr>Name = ''tofile'', Mode = 0x80001FF\<rparr>"

definition entryBar :: FileInfo where
  "entryBar = \<lparr>Name = ''bar.com'', Mode = 0x800001ED\<rparr>"

definition exampleCerts :: "(string, unit) cert_deps" where
  "exampleCerts =
     \<lparr>ParsePublicCertFile = (\<lambda>p. Inr [p]),
      LoadX509KeyPair = (\<lambda>c k. Inr ())\<rparr>"

text \<open>
  The same directory where the pair of \<^verbatim>\<open>foo.com\<close> is malformed, and where the root
  certificate does not parse, the root pair does not load, the directory cannot be
  opened, or cannot be listed.
\<close>

definition malformedFoo :: "(string, unit) cert_deps" where
  "malformedFoo =
     exampleCerts\<lparr>LoadX509KeyPair :=
       (\<lambda>c k. if c = ''/certs/foo.com/public.crt'' then Inl (LibErr ''malformed'') else Inr ())\<rparr>"

definition malformedRootCert :: "(string, unit) cert_deps" where
  "malformedRootCert =
     exampleCerts\<lparr>ParsePublicCertFile := (\<lambda>p. Inl (LibErr ''malformed''))\<rparr>"

definition malformedRootPair :: "(string, unit) cert_deps" where
  "malformedRootPair =
     exampleCerts\<lparr>LoadX509KeyPair := (\<lambda>c k. Inl (LibErr ''malformed''))\<rparr>"

definition unopenable :: os_deps where
  "unopenable = exampleOS\<lparr>os_Open := (\<lambda>p. Some (LibErr ''permission denied''))\<rparr>"

definition unlistable :: os_deps where
  "unlistable = exampleOS\<lparr>Readdir := (\<lambda>p. Inl (LibErr ''input/output error''))\<rparr>"


subsection \<open>Command lines to run the directory resolver on\<close>

text \<open>
  \<open>ctxLocal\<close>: the option is set to \<^verbatim>\<open>/a\<close> on the command and to \<^verbatim>\<open>/b\<close> on the
  enclosing scope. \<open>ctxGlobal\<close>: it is set to \<^verbatim>\<open>/b\<close> on the enclosing scope only, and
  the parent context does not report it set. \<open>ctxGlobalParent\<close>: the same, and the
  parent context reports it set, to \<^verbatim>\<open>/b\<close>. \<open>ctxGlobalEmpty\<close>: it is set to the
  empty string on the enclosing scope only. \<open>ctxNone\<close>: it is set nowhere.
  \<open>ctxConfigOnly\<close>: \<^verbatim>\<open>config-dir\<close> is set to \<^verbatim>\<open>/cfg\<close> on the command, nothing else
  is set.
\<close>

definition ctxNone :: cli_Context where
  "ctxNone =
     \<lparr>IsSet = (\<lambda>opt. False), String = (\<lambda>opt. ''''),
      GlobalIsSet = (\<lambda>opt. False), GlobalString = (\<lambda>opt. ''''),
      Parent_GlobalIsSet = (\<lambda>opt. False), Parent_GlobalString = (\<lambda>opt. '''')\<rparr>"

definition ctxLocal :: cli_Context where
  "ctxLocal =
     ctxNone\<lparr>IsSet := (\<lambda>opt. True), String := (\<lambda>opt. ''/a''),
             GlobalIsSet := (\<lambda>opt. True), GlobalString := (\<lambda>opt. ''/b'')\<rparr>"

definition ctxGlobal :: cli_Context where
  "ctxGlobal = ctxNone\<lparr>GlobalIsSet := (\<lambda>opt. True), GlobalString := (\<lambda>opt. ''/b'')\<rparr>"

definition ctxGlobalParent :: cli_Context where
  "ctxGlobalParent =
     ctxGlobal\<lparr>Parent_GlobalIsSet := (\<lambda>opt. True), Parent_GlobalString := (\<lambda>opt. ''/b'')\<rparr>"

definition ctxGlobalEmpty :: cli_Context where
  "ctxGlobalEmpty = ctxNone\<lparr>GlobalIsSet := (\<lambda>opt. True)\<rparr>"

definition ctxConfigOnly :: cli_Context where
  "ctxConfigOnly =
     ctxNone\<lparr>IsSet := (\<lambda>opt. opt = ''config-dir''),
             String := (\<lambda>opt. if opt = ''config-dir'' then ''/cfg'' else '''')\<rparr>"

definition initialCmd :: cmd_state where
  "initialCmd =
     \<lparr>JSON = False, Quiet = False, Anonymous = False, Addr = '''', StrictS3Compat = False,
      loggerJSON = False, loggerQuiet = False, loggerAnonymous = False,
      globalConfigDir = \<lparr>path = ''''\<rparr>, globalCertsDir = \<lparr>path = ''''\<rparr>,
      globalCertsCADir = \<lparr>path = ''''\<rparr>, mkdirCalls = []\<rparr>"

definition readOnlyOS :: os_deps where
  "readOnlyOS =
     exampleOS\<lparr>mkdirAllIgnorePerm :=
       (\<lambda>p. if p = ''/cfg/certs/CAs'' then Some (LibErr ''read-only file system'') else None)\<rparr>"

subsection \<open>Environments to run the KMS part on\<close>

text \<open>
  Library calls that accept everything (the key or client they return is the text they
  were given), and environments with the secret key, the master key, the KES endpoint,
  and none or two of them.
\<close>

definition exampleKMS :: "(string, unit) kms_deps" where
  "exampleKMS =
     \<lparr>kms_Parse = (\<lambda>s. Inr s),
      hex_DecodeString = (\<lambda>s. Inr []),
      kms_New = (\<lambda>keyID key. Inr keyID),
      crypto_ParseKESEndpoints = (\<lambda>s. Inr [s]),
      crypto_NewKes = (\<lambda>cfg. Inr (concat (Endpoint cfg))),
      newTransport = ()\<rparr>"

definition noKMS :: "string kms_state" where
  "noKMS = \<lparr>GlobalKMS = None, logged = []\<rparr>"

definition envSecret :: environ where
  "envSecret = [EnvKMSSecretKey \<mapsto> ''my-key:bXktc2VjcmV0'']"

definition envMaster :: environ where
  "envMaster = [EnvKMSMasterKey \<mapsto> ''my-key:6368616e6765''  ]"

definition envKES :: environ where
  "envKES = [EnvKESEndpoint \<mapsto> ''https://kes:7373'']"

definition envSecretKES :: environ where
  "envSecretKES = [EnvKMSSecretKey \<mapsto> ''my-key:bXktc2VjcmV0'', EnvKESEndpoint \<mapsto> ''https://kes:7373'']"

definition envMasterKES :: environ where
  "envMasterKES = [EnvKMSMasterKey \<mapsto> ''my-key:6368616e6765'', EnvKESEndpoint \<mapsto> ''https://kes:7373'']"

subsection \<open>A resolver to run the address part on\<close>

text \<open>
  Two literal addresses are known to \<^verbatim>\<open>net.ParseIP\<close>; the host \<^verbatim>\<open>minio.example.com\<close>
  resolves to two addresses, one of them also given literally; every other name fails
  to resolve.
\<close>

definition exampleNet :: net_deps where
  "exampleNet =
     \<lparr>net_ParseIP = (\<lambda>s. s = ''10.0.0.1'' \<or> s = ''192.168.1.7''),
      net_LookupHost = (\<lambda>h. if h = ''minio.example.com''
                              then Inr [''192.168.1.7'', ''192.168.1.8'']
                              else Inl (LibErr ''no such host'')),
      mustGetLocalIP4 = {''172.17.0.2''},
      globalEndpoints_Hostnames = [''node1'']\<rparr>"

definition envIPs :: environ where
  "envIPs = [EnvPublicIPs \<mapsto> ''10.0.0.1,minio.example.com,192.168.1.7'']"

definition envBadHost :: environ where
  "envBadHost = [EnvPublicIPs \<mapsto> ''10.0.0.1,nowhere.invalid'']"

section \<open>Theorems\<close>

subsection \<open>The directory resolver\<close>

lemmas ctx_defs =
  ctxNone_def ctxLocal_def ctxGlobal_def ctxGlobalParent_def ctxGlobalEmpty_def
  ctxConfigOnly_def

text \<open>
  What \<^verbatim>\<open>newConfigDirFromCtx\<close> does with the directory and the flag its \<^verbatim>\<open>switch\<close>
  chose, when the directory is not empty, has an absolute form and can be created.
\<close>

lemma newConfigDirFromCtx_local:
  assumes "IsSet ctx option"
  shows "newConfigDirFromCtx os ctx option def calls =
     (if String ctx option = ''''
      then (Inl (Fatal (ErrorsNew ''empty directory'') ''%s directory cannot be empty''
                   [option]), calls)
      else
        (case filepath_Abs os (String ctx option) of
           Inl err \<Rightarrow>
             (Inl (Fatal err ''Unable to fetch absolute path for %s=%s''
                     [option, String ctx option]), calls)
         | Inr dirAbs \<Rightarrow>
             (case mkdirAllIgnorePerm os dirAbs of
                Some err \<Rightarrow>
                  (Inl (Fatal err ''Unable to create directory specified %s=%s''
                          [option, String ctx option]), calls @ [dirAbs])
              | None \<Rightarrow> (Inr (\<lparr>path = dirAbs\<rparr>, True), calls @ [dirAbs]))))"
  using assms by (simp add: newConfigDirFromCtx_def)

text \<open>
  C3, as the code has it. A value set on the command wins and is explicit. A value set
  on the enclosing scope only is used and explicit when it is neither empty nor the
  default. When it is empty or the default, the parent context is asked: if the parent
  reports the option set, the parent's value is used and is explicit; if not, the
  enclosing value is used and is not explicit, and an empty one ends the process
  (\<^verbatim>\<open>directory cannot be empty\<close>). With the option set nowhere the default is used, not
  explicit, and an empty default ends the process (\<^verbatim>\<open>option must be provided\<close>).
  The path returned is the absolute form \<open>p\<close> of the value used, and that directory
  is created.
\<close>

theorem C3_directory_precedence:
  "(IsSet ctx option \<and> String ctx option \<noteq> ''''
      \<and> filepath_Abs os (String ctx option) = Inr p \<and> mkdirAllIgnorePerm os p = None
      \<longrightarrow> newConfigDirFromCtx os ctx option def calls
            = (Inr (\<lparr>path = p\<rparr>, True), calls @ [p]))
   \<and> (\<not> IsSet ctx option \<and> GlobalIsSet ctx option
      \<and> GlobalString ctx option \<noteq> '''' \<and> GlobalString ctx option \<noteq> def
      \<and> filepath_Abs os (GlobalString ctx option) = Inr p \<and> mkdirAllIgnorePerm os p = None
      \<longrightarrow> newConfigDirFromCtx os ctx option def calls
            = (Inr (\<lparr>path = p\<rparr>, True), calls @ [p]))
   \<and> (\<not> IsSet ctx option \<and> GlobalIsSet ctx option
      \<and> (GlobalString ctx option = '''' \<or> GlobalString ctx option = def)
      \<and> Parent_GlobalIsSet ctx option \<and> Parent_GlobalString ctx option \<noteq> ''''
      \<and> filepath_Abs os (Parent_GlobalString ctx option) = Inr p
      \<and> mkdirAllIgnorePerm os p = None
      \<longrightarrow> newConfigDirFromCtx os ctx option def calls
            = (Inr (\<lparr>path = p\<rparr>, True), calls @ [p]))
   \<and> (\<not> IsSet ctx option \<and> GlobalIsSet ctx option
      \<and> GlobalString ctx option = def \<and> def \<noteq> ''''
      \<and> \<not> Parent_GlobalIsSet ctx option
      \<and> filepath_Abs os def = Inr p \<and> mkdirAllIgnorePerm os p = None
      \<longrightarrow> newConfigDirFromCtx os ctx option def calls
            = (Inr (\<lparr>path = p\<rparr>, False), calls @ [p]))
   \<and> (\<not> IsSet ctx option \<and> GlobalIsSet ctx option
      \<and> GlobalString ctx option = '''' \<and> \<not> Parent_GlobalIsSet ctx option
      \<longrightarrow> newConfigDirFromCtx os ctx option def calls
            = (Inl (Fatal (ErrorsNew ''empty directory'') ''%s directory cannot be empty''
                      [option]), calls))
   \<and> (\<not> IsSet ctx option \<and> \<not> GlobalIsSet ctx option \<and> def \<noteq> ''''
      \<and> filepath_Abs os def = Inr p \<and> mkdirAllIgnorePerm os p = None
      \<longrightarrow> newConfigDirFromCtx os ctx option def calls
            = (Inr (\<lparr>path = p\<rparr>, False), calls @ [p]))
   \<and> (\<not> IsSet ctx option \<and> \<not> GlobalIsSet ctx option \<and> def = ''''
      \<longrightarrow> newConfigDirFromCtx os ctx option def calls
            = (Inl (Fatal errInvalidArgument ''%s option must be provided'' [option]), calls))"
  by (simp add: newConfigDirFromCtx_def Let_def)

theorem C3_directory_precedence_witness:
  "newConfigDirFromCtx exampleOS ctxLocal ''config-dir'' ''/b'' []
     = (Inr (\<lparr>path = ''/a''\<rparr>, True), [''/a''])
   \<and> newConfigDirFromCtx exampleOS ctxGlobal ''config-dir'' ''/b'' []
     = (Inr (\<lparr>path = ''/b''\<rparr>, False), [''/b''])
   \<and> newConfigDirFromCtx exampleOS ctxGlobalParent ''config-dir'' ''/b'' []
     = (Inr (\<lparr>path = ''/b''\<rparr>, True), [''/b''])
   \<and> newConfigDirFromCtx exampleOS ctxNone ''config-dir'' ''/b'' []
     = (Inr (\<lparr>path = ''/b''\<rparr>, False), [''/b''])
   \<and> newConfigDirFromCtx exampleOS ctxNone ''config-dir'' '''' []
     = (Inl (Fatal errInvalidArgument ''%s option must be provided'' [''config-dir'']), [])"
  using
    C3_directory_precedence [where os = exampleOS and ctx = ctxLocal
      and option = "''config-dir''" and def = "''/b''" and calls = "[]" and p = "''/a''"]
    C3_directory_precedence [where os = exampleOS and ctx = ctxGlobal
      and option = "''config-dir''" and def = "''/b''" and calls = "[]" and p = "''/b''"]
    C3_directory_precedence [where os = exampleOS and ctx = ctxGlobalParent
      and option = "''config-dir''" and def = "''/b''" and calls = "[]" and p = "''/b''"]
    C3_directory_precedence [where os = exampleOS and ctx = ctxNone
      and option = "''config-dir''" and def = "''/b''" and calls = "[]" and p = "''/b''"]
    C3_directory_precedence [where os = exampleOS and ctx = ctxNone
      and option = "''config-dir''" and def = "''''" and calls = "[]"]
  by (simp add: ctx_defs exampleOS_def)

text \<open>
  C3, as the claim states it, fails: with the option unset on the command and set to
  \<^verbatim>\<open>/b\<close>, the default, on the enclosing scope, the result is marked explicit when the
  parent context reports the option set. (And an empty value set on the enclosing scope
  only is not used at all: the process ends.)
\<close>

theorem C3_counterexample:
  "\<not> IsSet ctxGlobalParent ''config-dir''
   \<and> GlobalIsSet ctxGlobalParent ''config-dir''
   \<and> GlobalString ctxGlobalParent ''config-dir'' = ''/b''
   \<and> fst (newConfigDirFromCtx exampleOS ctxGlobalParent ''config-dir'' ''/b'' [])
       \<noteq> Inr (\<lparr>path = ''/b''\<rparr>, False)
   \<and> fst (newConfigDirFromCtx exampleOS ctxGlobalEmpty ''config-dir'' ''/b'' [])
       = Inl (Fatal (ErrorsNew ''empty directory'') ''%s directory cannot be empty''
                [''config-dir''])"
  by (simp add: newConfigDirFromCtx_def ctx_defs exampleOS_def)

lemma handleCommonCmdArgs_flags_mkdirCalls:
  "mkdirCalls (handleCommonCmdArgs_flags port ctx st) = mkdirCalls st"
  by (simp add: handleCommonCmdArgs_flags_def Let_def)

text \<open>
  C8: when both directories resolve, \<^verbatim>\<open>handleCommonCmdArgs\<close> keeps the certs directory
  the resolver returned unless the certs directory was not explicit and the config
  directory was; then the certs directory is \<^verbatim>\<open>certs\<close> under the config directory.
  In both cases the CA directory is \<^verbatim>\<open>CAs\<close> under the certs directory,
  \<^verbatim>\<open>mkdirAllIgnorePerm\<close> is called on it, and its failure ends the process.
\<close>

theorem C8_certs_and_ca_dirs:
  assumes "newConfigDirFromCtx os ctx ''config-dir'' defaultConfigDir (mkdirCalls st)
             = (Inr (configDir, configSet), calls1)"
    and "newConfigDirFromCtx os ctx ''certs-dir'' defaultCertsDir calls1
             = (Inr (certsDir0, certsSet), calls2)"
    and "handleCommonCmdArgs os port defaultConfigDir defaultCertsDir ctx st = (result, st')"
  shows
    "globalConfigDir st' = configDir
     \<and> (\<not> certsSet \<and> configSet
        \<longrightarrow> path (globalCertsDir st') = filepath_Join os [path configDir, certsDir])
     \<and> (\<not> (\<not> certsSet \<and> configSet) \<longrightarrow> globalCertsDir st' = certsDir0)
     \<and> path (globalCertsCADir st') = filepath_Join os [path (globalCertsDir st'), certsCADir]
     \<and> mkdirCalls st' = calls2 @ [path (globalCertsCADir st')]
     \<and> (\<forall>err. mkdirAllIgnorePerm os (path (globalCertsCADir st')) = Some err
          \<longrightarrow> result = Some (Fatal err ''Unable to create certs CA directory at %s''
                              [path (globalCertsCADir st')]))
     \<and> (mkdirAllIgnorePerm os (path (globalCertsCADir st')) = None \<longrightarrow> result = None)"
proof (cases "\<not> certsSet \<and> configSet")
  case True
  with assms show ?thesis
    by (cases "mkdirAllIgnorePerm os
                 (filepath_Join os [filepath_Join os [path configDir, certsDir], certsCADir])")
       (auto simp: handleCommonCmdArgs_def Let_def handleCommonCmdArgs_flags_mkdirCalls)
next
  case False
  with assms show ?thesis
    by (cases "mkdirAllIgnorePerm os (filepath_Join os [path certsDir0, certsCADir])")
       (auto simp: handleCommonCmdArgs_def Let_def handleCommonCmdArgs_flags_mkdirCalls)
qed

theorem C8_certs_and_ca_dirs_witness:
  "path (globalCertsDir (snd (handleCommonCmdArgs exampleOS ''9000'' ''/home/.minio''
            ''/home/.minio/certs'' ctxConfigOnly initialCmd))) = ''/cfg/certs''
   \<and> path (globalCertsCADir (snd (handleCommonCmdArgs exampleOS ''9000'' ''/home/.minio''
            ''/home/.minio/certs'' ctxConfigOnly initialCmd))) = ''/cfg/certs/CAs''
   \<and> mkdirCalls (snd (handleCommonCmdArgs exampleOS ''9000'' ''/home/.minio''
            ''/home/.minio/certs'' ctxConfigOnly initialCmd))
       = [''/cfg'', ''/home/.minio/certs'', ''/cfg/certs/CAs'']
   \<and> fst (handleCommonCmdArgs readOnlyOS ''9000'' ''/home/.minio''
            ''/home/.minio/certs'' ctxConfigOnly initialCmd)
       = Some (Fatal (LibErr ''read-only file system'')
                 ''Unable to create certs CA directory at %s'' [''/cfg/certs/CAs''])"
proof -
  let ?ok = "handleCommonCmdArgs exampleOS ''9000'' ''/home/.minio''
               ''/home/.minio/certs'' ctxConfigOnly initialCmd"
  let ?ro = "handleCommonCmdArgs readOnlyOS ''9000'' ''/home/.minio''
               ''/home/.minio/certs'' ctxConfigOnly initialCmd"
  have c1: "newConfigDirFromCtx exampleOS ctxConfigOnly ''config-dir'' ''/home/.minio''
              (mkdirCalls initialCmd) = (Inr (\<lparr>path = ''/cfg''\<rparr>, True), [''/cfg''])"
    by (simp add: newConfigDirFromCtx_def ctx_defs exampleOS_def initialCmd_def)
  have c2: "newConfigDirFromCtx exampleOS ctxConfigOnly ''certs-dir'' ''/home/.minio/certs''
              [''/cfg'']
            = (Inr (\<lparr>path = ''/home/.minio/certs''\<rparr>, False), [''/cfg'', ''/home/.minio/certs''])"
    by (simp add: newConfigDirFromCtx_def ctx_defs exampleOS_def)
  have r1: "newConfigDirFromCtx readOnlyOS ctxConfigOnly ''config-dir'' ''/home/.minio''
              (mkdirCalls initialCmd) = (Inr (\<lparr>path = ''/cfg''\<rparr>, True), [''/cfg''])"
    by (simp add: newConfigDirFromCtx_def ctx_defs readOnlyOS_def exampleOS_def initialCmd_def)
  have r2: "newConfigDirFromCtx readOnlyOS ctxConfigOnly ''certs-dir'' ''/home/.minio/certs''
              [''/cfg'']
            = (Inr (\<lparr>path = ''/home/.minio/certs''\<rparr>, False), [''/cfg'', ''/home/.minio/certs''])"
    by (simp add: newConfigDirFromCtx_def ctx_defs readOnlyOS_def exampleOS_def)
  have j: "filepath_Join exampleOS [''/cfg'', certsDir] = ''/cfg/certs''"
    "filepath_Join exampleOS [''/cfg/certs'', certsCADir] = ''/cfg/certs/CAs''"
    "filepath_Join readOnlyOS [''/cfg'', certsDir] = ''/cfg/certs''"
    "filepath_Join readOnlyOS [''/cfg/certs'', certsCADir] = ''/cfg/certs/CAs''"
    "mkdirAllIgnorePerm readOnlyOS ''/cfg/certs/CAs'' = Some (LibErr ''read-only file system'')"
    by (simp_all add: readOnlyOS_def exampleOS_def certsDir_def certsCADir_def)
  note ok = C8_certs_and_ca_dirs [OF c1 c2, of "''9000''" "fst ?ok" "snd ?ok", OF prod.collapse [symmetric]]
  note ro = C8_certs_and_ca_dirs [OF r1 r2, of "''9000''" "fst ?ro" "snd ?ro", OF prod.collapse [symmetric]]
  have 1: "path (globalCertsDir (snd ?ok)) = ''/cfg/certs''"
    using ok [THEN conjunct2, THEN conjunct1] by (simp add: j)
  have 2: "path (globalCertsCADir (snd ?ok)) = ''/cfg/certs/CAs''"
    using ok [THEN conjunct2, THEN conjunct2, THEN conjunct2, THEN conjunct1] 1
    by (simp add: j)
  have 3: "mkdirCalls (snd ?ok) = [''/cfg'', ''/home/.minio/certs'', ''/cfg/certs/CAs'']"
    using ok [THEN conjunct2, THEN conjunct2, THEN conjunct2, THEN conjunct2, THEN conjunct1] 2
    by simp
  have 4: "path (globalCertsDir (snd ?ro)) = ''/cfg/certs''"
    using ro [THEN conjunct2, THEN conjunct1] by (simp add: j)
  have 5: "path (globalCertsCADir (snd ?ro)) = ''/cfg/certs/CAs''"
    using ro [THEN conjunct2, THEN conjunct2, THEN conjunct2, THEN conjunct1] 4
    by (simp add: j)
  have 6: "fst ?ro = Some (Fatal (LibErr ''read-only file system'')
                 ''Unable to create certs CA directory at %s'' [''/cfg/certs/CAs''])"
    using ro [THEN conjunct2, THEN conjunct2, THEN conjunct2, THEN conjunct2, THEN conjunct2,
              THEN conjunct1, THEN spec, of "LibErr ''read-only file system''"] 5
    by (simp add: j)
  show ?thesis by (rule conjI [OF 1 conjI [OF 2 conjI [OF 3 6]]])
qed

subsection \<open>The domain validator\<close>

lemmas env_defs =
  env_IsSet_def env_Get_def EnvDomain_def EnvPublicIPs_def EnvKMSSecretKey_def
  EnvKMSMasterKey_def EnvKESEndpoint_def EnvKESKeyName_def EnvKESClientCert_def
  EnvKESClientKey_def EnvKESServerCA_def ValueSeparator_def

text \<open>\<open>Split\<close> never returns the empty list.\<close>

lemma Split_not_Nil: "Split s sep \<noteq> []"
  by (induction s) (auto split: list.splits)

text \<open>
  Every non-empty list of strings that do not contain the separator, other than the
  list of one empty string, is the list of pieces of a non-empty value.
\<close>

lemma Split_no_sep: "sep \<notin> set s \<Longrightarrow> Split s sep = [s]"
  by (induction s) auto

lemma Split_append_sep:
  "sep \<notin> set s \<Longrightarrow> Split (s @ sep # rest) sep = s # Split rest sep"
  by (induction s) auto

lemma Split_joinWith:
  "ds \<noteq> [] \<Longrightarrow> \<forall>d \<in> set ds. sep \<notin> set d \<Longrightarrow> Split (joinWith sep ds) sep = ds"
proof (induction sep ds rule: joinWith.induct)
  case (1 sep)
  then show ?case by simp
next
  case (2 sep s)
  then show ?case by (simp add: Split_no_sep)
next
  case (3 sep s t ts)
  then show ?case by (simp add: Split_append_sep)
qed

lemma joinWith_not_Nil:
  "ds \<noteq> [] \<Longrightarrow> ds \<noteq> [[]] \<Longrightarrow> joinWith sep ds \<noteq> []"
  by (induction sep ds rule: joinWith.induct) auto

text \<open>
  \<open>lcpSuffix\<close> meets the words of the spec: it is a suffix of every string of the
  list, and every string that is a suffix of all of them is a suffix of it.
\<close>

lemma lcpSuffix_common: "d \<in> set ds \<Longrightarrow> suffix (lcpSuffix ds) d"
proof (induction ds rule: lcpSuffix.induct)
  case 1
  then show ?case by simp
next
  case (2 s)
  then show ?case by simp
next
  case (3 s t ts)
  let ?l = "lcpSuffix (t # ts)"
  have s: "suffix (lcpSuffix (s # t # ts)) s"
    using longest_common_prefix_prefix1 [of "rev s" "rev ?l"]
    by (simp add: suffix_to_prefix)
  have l: "suffix (lcpSuffix (s # t # ts)) ?l"
    using longest_common_prefix_prefix2 [of "rev s" "rev ?l"]
    by (simp add: suffix_to_prefix)
  show ?case
  proof (cases "d = s")
    case True
    with s show ?thesis by simp
  next
    case False
    with "3.prems" have "d \<in> set (t # ts)" by simp
    then have "suffix ?l d" by (rule "3.IH")
    with l show ?thesis by (rule suffix_order.trans)
  qed
qed

lemma lcpSuffix_greatest:
  "ds \<noteq> [] \<Longrightarrow> (\<And>d. d \<in> set ds \<Longrightarrow> suffix s d) \<Longrightarrow> suffix s (lcpSuffix ds)"
proof (induction ds rule: lcpSuffix.induct)
  case 1
  then show ?case by simp
next
  case (2 s)
  then show ?case by simp
next
  case (3 u t ts)
  have "suffix s (lcpSuffix (t # ts))"
    by (rule "3.IH") (simp_all add: "3.prems")
  moreover have "suffix s u" by (simp add: "3.prems")
  ultimately show ?case
    using longest_common_prefix_max_prefix [of "rev s" "rev u" "rev (lcpSuffix (t # ts))"]
    by (simp add: suffix_to_prefix)
qed

lemma lcpSuffix_longest:
  assumes "ds \<noteq> []"
  shows "(\<forall>d \<in> set ds. suffix (lcpSuffix ds) d)
     \<and> (\<forall>s. (\<forall>d \<in> set ds. suffix s d) \<longrightarrow> length s \<le> length (lcpSuffix ds))"
proof (intro conjI ballI allI impI)
  fix d assume "d \<in> set ds"
  then show "suffix (lcpSuffix ds) d" by (rule lcpSuffix_common)
next
  fix s assume "\<forall>d \<in> set ds. suffix s d"
  with assms have "suffix s (lcpSuffix ds)" by (simp add: lcpSuffix_greatest)
  then show "length s \<le> length (lcpSuffix ds)" by (rule suffix_length_le)
qed

text \<open>The first loop appends every piece when all of them are domain names.\<close>

lemma appendDomains_valid:
  "\<forall>d \<in> set ds. IsDomainName d \<Longrightarrow> appendDomains IsDomainName ds names = Inr (names @ ds)"
  by (induction ds arbitrary: names) simp_all

lemma appendDomains_invalid:
  "\<exists>d \<in> set ds. \<not> IsDomainName d \<Longrightarrow> \<exists>f. appendDomains IsDomainName ds names = Inl f"
  by (induction ds arbitrary: names) auto

text \<open>The second loop ends the process exactly when \<open>lcpSuf\<close> is among the names left
  and there is more than one name.\<close>

lemma checkOverlap_iff:
  "checkOverlap lcpSuf names rest =
     (if lcpSuf \<in> set rest \<and> length names > 1
      then Some (Fatal (ConfigErr ''ErrOverlappingDomainValue''
                          ''Overlapping domains `%s` not allowed'' names)
                   ''Invalid MINIO_DOMAIN value in environment variable'' [])
      else None)"
  by (induction rest) auto

lemma handleDomains_valid:
  assumes "env EnvDomain = Some raw" and "raw \<noteq> []"
    and "\<forall>d \<in> set (Split raw ValueSeparator). IsDomainName d"
  shows "handleDomains IsDomainName env [] =
     (if lcpSuffix (sort (Split raw ValueSeparator)) \<in> set (Split raw ValueSeparator)
         \<and> length (Split raw ValueSeparator) > 1
      then Inl (Fatal (ConfigErr ''ErrOverlappingDomainValue''
                         ''Overlapping domains `%s` not allowed''
                         (sort (Split raw ValueSeparator)))
                  ''Invalid MINIO_DOMAIN value in environment variable'' [])
      else Inr (sort (Split raw ValueSeparator)))"
  using assms
  by (simp add: handleDomains_def env_Get_def appendDomains_valid checkOverlap_iff Let_def)

text \<open>
  C2: when every piece of a non-empty \<^verbatim>\<open>DOMAIN\<close> value is a domain name, the validator
  sorts the pieces and ends the process with the overlap error, naming the sorted list,
  if and only if the longest common suffix of the sorted list is one of its members and
  the list has more than one member; otherwise it leaves the sorted list. The list
  \<^verbatim>\<open>eu.example.com, example.com\<close> fails with the overlap error, the list
  \<^verbatim>\<open>a.example.com, b.example.com\<close> gives itself in sorted order. (\<open>lcpSuffix\<close> is
  modelled from the spec. By \<open>Split_joinWith\<close> every non-empty list of domains is the
  list of pieces of some value, so the statement speaks of every such list.)
\<close>

theorem C2_domain_overlap:
  assumes "env EnvDomain = Some raw" and "raw \<noteq> []"
    and "\<forall>d \<in> set (Split raw ValueSeparator). IsDomainName d"
  shows
    "(handleDomains IsDomainName env [] =
        Inl (Fatal (ConfigErr ''ErrOverlappingDomainValue''
                      ''Overlapping domains `%s` not allowed''
                      (sort (Split raw ValueSeparator)))
               ''Invalid MINIO_DOMAIN value in environment variable'' [])
      \<longleftrightarrow> lcpSuffix (sort (Split raw ValueSeparator)) \<in> set (sort (Split raw ValueSeparator))
          \<and> length (sort (Split raw ValueSeparator)) > 1)
     \<and> (handleDomains IsDomainName env [] = Inr (sort (Split raw ValueSeparator))
      \<longleftrightarrow> \<not> (lcpSuffix (sort (Split raw ValueSeparator)) \<in> set (sort (Split raw ValueSeparator))
             \<and> length (sort (Split raw ValueSeparator)) > 1))
     \<and> (\<forall>d \<in> set (sort (Split raw ValueSeparator)).
           suffix (lcpSuffix (sort (Split raw ValueSeparator))) d)
     \<and> (\<forall>s. (\<forall>d \<in> set (sort (Split raw ValueSeparator)). suffix s d)
           \<longrightarrow> length s \<le> length (lcpSuffix (sort (Split raw ValueSeparator))))
     \<and> (raw = ''eu.example.com,example.com''
         \<longrightarrow> handleDomains IsDomainName env [] =
              Inl (Fatal (ConfigErr ''ErrOverlappingDomainValue''
                            ''Overlapping domains `%s` not allowed''
                            [''eu.example.com'', ''example.com''])
                     ''Invalid MINIO_DOMAIN value in environment variable'' []))
     \<and> (raw = ''a.example.com,b.example.com''
         \<longrightarrow> handleDomains IsDomainName env [] = Inr [''a.example.com'', ''b.example.com''])"
proof -
  let ?ds = "Split raw ValueSeparator"
  have h: "handleDomains IsDomainName env [] =
     (if lcpSuffix (sort ?ds) \<in> set ?ds \<and> length ?ds > 1
      then Inl (Fatal (ConfigErr ''ErrOverlappingDomainValue''
                         ''Overlapping domains `%s` not allowed'' (sort ?ds))
                  ''Invalid MINIO_DOMAIN value in environment variable'' [])
      else Inr (sort ?ds))"
    using assms by (rule handleDomains_valid)
  have ne: "sort ?ds \<noteq> []"
    using Split_not_Nil [of raw ValueSeparator] by (metis length_0_conv length_sort)
  have 1: "handleDomains IsDomainName env [] =
        Inl (Fatal (ConfigErr ''ErrOverlappingDomainValue''
                      ''Overlapping domains `%s` not allowed'' (sort ?ds))
               ''Invalid MINIO_DOMAIN value in environment variable'' [])
      \<longleftrightarrow> lcpSuffix (sort ?ds) \<in> set (sort ?ds) \<and> length (sort ?ds) > 1"
    by (simp add: h)
  have 2: "handleDomains IsDomainName env [] = Inr (sort ?ds)
      \<longleftrightarrow> \<not> (lcpSuffix (sort ?ds) \<in> set (sort ?ds) \<and> length (sort ?ds) > 1)"
    by (simp add: h)
  have 3: "\<forall>d \<in> set (sort ?ds). suffix (lcpSuffix (sort ?ds)) d"
    using lcpSuffix_longest [OF ne] by blast
  have 4: "\<forall>s. (\<forall>d \<in> set (sort ?ds). suffix s d)
           \<longrightarrow> length s \<le> length (lcpSuffix (sort ?ds))"
    using lcpSuffix_longest [OF ne] by blast
  have 5: "raw = ''eu.example.com,example.com''
         \<longrightarrow> handleDomains IsDomainName env [] =
              Inl (Fatal (ConfigErr ''ErrOverlappingDomainValue''
                            ''Overlapping domains `%s` not allowed''
                            [''eu.example.com'', ''example.com''])
                     ''Invalid MINIO_DOMAIN value in environment variable'' [])"
  proof
    assume r: "raw = ''eu.example.com,example.com''"
    have s: "Split ''eu.example.com,example.com'' ValueSeparator
               = [''eu.example.com'', ''example.com'']"
      by (simp add: ValueSeparator_def)
    have o: "sort [''eu.example.com'', ''example.com''] = [''eu.example.com'', ''example.com'']"
      by code_simp
    have l: "lcpSuffix [''eu.example.com'', ''example.com''] = ''example.com''"
      by simp
    show "handleDomains IsDomainName env [] =
              Inl (Fatal (ConfigErr ''ErrOverlappingDomainValue''
                            ''Overlapping domains `%s` not allowed''
                            [''eu.example.com'', ''example.com''])
                     ''Invalid MINIO_DOMAIN value in environment variable'' [])"
      unfolding h r s o l by simp
  qed
  have 6: "raw = ''a.example.com,b.example.com''
         \<longrightarrow> handleDomains IsDomainName env [] = Inr [''a.example.com'', ''b.example.com'']"
  proof
    assume r: "raw = ''a.example.com,b.example.com''"
    have s: "Split ''a.example.com,b.example.com'' ValueSeparator
               = [''a.example.com'', ''b.example.com'']"
      by (simp add: ValueSeparator_def)
    have o: "sort [''a.example.com'', ''b.example.com''] = [''a.example.com'', ''b.example.com'']"
      by code_simp
    have l: "lcpSuffix [''a.example.com'', ''b.example.com''] = ''.example.com''"
      by simp
    show "handleDomains IsDomainName env [] = Inr [''a.example.com'', ''b.example.com'']"
      unfolding h r s o l by simp
  qed
  show ?thesis
    by (rule conjI [OF 1 conjI [OF 2 conjI [OF 3 conjI [OF 4 conjI [OF 5 6]]]]])
qed

theorem C2_domain_overlap_witness:
  "handleDomains (\<lambda>d. d \<noteq> []) [EnvDomain \<mapsto> ''eu.example.com,example.com''] [] =
     Inl (Fatal (ConfigErr ''ErrOverlappingDomainValue''
                   ''Overlapping domains `%s` not allowed''
                   [''eu.example.com'', ''example.com''])
            ''Invalid MINIO_DOMAIN value in environment variable'' [])
   \<and> handleDomains (\<lambda>d. d \<noteq> []) [EnvDomain \<mapsto> ''a.example.com,b.example.com''] [] =
     Inr [''a.example.com'', ''b.example.com'']"
proof -
  have s: "\<forall>d \<in> set (Split ''eu.example.com,example.com'' ValueSeparator). d \<noteq> []"
    "\<forall>d \<in> set (Split ''a.example.com,b.example.com'' ValueSeparator). d \<noteq> []"
    by (simp_all add: ValueSeparator_def)
  have e: "[EnvDomain \<mapsto> ''eu.example.com,example.com''] EnvDomain
             = Some ''eu.example.com,example.com''"
    "[EnvDomain \<mapsto> ''a.example.com,b.example.com''] EnvDomain
             = Some ''a.example.com,b.example.com''"
    by simp_all
  have n: "''eu.example.com,example.com'' \<noteq> []" "''a.example.com,b.example.com'' \<noteq> []"
    by simp_all
  have 1: "handleDomains (\<lambda>d. d \<noteq> []) [EnvDomain \<mapsto> ''eu.example.com,example.com''] [] =
     Inl (Fatal (ConfigErr ''ErrOverlappingDomainValue''
                   ''Overlapping domains `%s` not allowed''
                   [''eu.example.com'', ''example.com''])
            ''Invalid MINIO_DOMAIN value in environment variable'' [])"
    by (rule C2_domain_overlap [where IsDomainName = "\<lambda>d. d \<noteq> []"
        and env = "[EnvDomain \<mapsto> ''eu.example.com,example.com'']"
        and raw = "''eu.example.com,example.com''", OF e(1) n(1) s(1),
        THEN conjunct2, THEN conjunct2, THEN conjunct2, THEN conjunct2, THEN conjunct1,
        THEN mp, OF refl])
  have 2: "handleDomains (\<lambda>d. d \<noteq> []) [EnvDomain \<mapsto> ''a.example.com,b.example.com''] [] =
     Inr [''a.example.com'', ''b.example.com'']"
    by (rule C2_domain_overlap [where IsDomainName = "\<lambda>d. d \<noteq> []"
        and env = "[EnvDomain \<mapsto> ''a.example.com,b.example.com'']"
        and raw = "''a.example.com,b.example.com''", OF e(2) n(2) s(2),
        THEN conjunct2, THEN conjunct2, THEN conjunct2, THEN conjunct2, THEN conjunct2,
        THEN mp, OF refl])
  show ?thesis by (rule conjI [OF 1 2])
qed

subsection \<open>The public addresses\<close>

lemma addAll_eq: "addAll s xs = s \<union> set xs"
  unfolding addAll_def by (induction xs arbitrary: s) auto

lemma resolvedAddrs_Cons:
  "resolvedAddrs n (t # ts) =
     (if net_ParseIP n t then {}
      else (case net_LookupHost n t of Inl err \<Rightarrow> {} | Inr addrs \<Rightarrow> set addrs))
     \<union> resolvedAddrs n ts"
  by (simp add: resolvedAddrs_def)

text \<open>The loop succeeds exactly when every piece that is no literal address resolves,
  and then it has added every piece and every resolved address.\<close>

lemma addEndpoints_ok:
  "addEndpoints n tokens s = Inr s' \<Longrightarrow> s' = s \<union> set tokens \<union> resolvedAddrs n tokens"
proof (induction tokens arbitrary: s)
  case Nil
  then show ?case by (simp add: resolvedAddrs_def)
next
  case (Cons t ts)
  show ?case
  proof (cases "net_ParseIP n t")
    case True
    with Cons.prems have "addEndpoints n ts (insert t s) = Inr s'" by simp
    then have "s' = insert t s \<union> set ts \<union> resolvedAddrs n ts" by (rule Cons.IH)
    with True show ?thesis by (auto simp: resolvedAddrs_Cons)
  next
    case False
    with Cons.prems obtain addrs where l: "net_LookupHost n t = Inr addrs"
      and r: "addEndpoints n ts (insert t (addAll s addrs)) = Inr s'"
      by (auto split: sum.splits)
    from r have "s' = insert t (addAll s addrs) \<union> set ts \<union> resolvedAddrs n ts"
      by (rule Cons.IH)
    with False l show ?thesis by (auto simp: resolvedAddrs_Cons addAll_eq)
  qed
qed

lemma addEndpoints_fatal:
  "(\<exists>f. addEndpoints n tokens s = Inl f)
     \<longleftrightarrow> (\<exists>t \<in> set tokens. \<not> net_ParseIP n t \<and> (\<exists>err. net_LookupHost n t = Inl err))"
proof (induction tokens arbitrary: s)
  case Nil
  show ?case by simp
next
  case (Cons t ts)
  show ?case
  proof (cases "net_ParseIP n t")
    case True
    then show ?thesis using Cons.IH [of "insert t s"] by simp
  next
    case False
    show ?thesis
    proof (cases "net_LookupHost n t")
      case (Inl err)
      with False show ?thesis by auto
    next
      case (Inr addrs)
      with False show ?thesis using Cons.IH [of "insert t (addAll s addrs)"] by simp
    qed
  qed
qed

lemma addEndpoints_fatal_token:
  "addEndpoints n tokens s = Inl f
   \<Longrightarrow> \<exists>t \<in> set tokens. \<exists>err. \<not> net_ParseIP n t \<and> net_LookupHost n t = Inl err
         \<and> f = Fatal err
               ''Unable to initialize MinIO server with [%s] invalid entry found in MINIO_PUBLIC_IPS''
               [t]"
proof (induction tokens arbitrary: s)
  case Nil
  then show ?case by simp
next
  case (Cons t ts)
  show ?case
  proof (cases "net_ParseIP n t")
    case True
    with Cons.prems have "addEndpoints n ts (insert t s) = Inl f" by simp
    from Cons.IH [OF this] show ?thesis by auto
  next
    case False
    show ?thesis
    proof (cases "net_LookupHost n t")
      case (Inl err)
      with False Cons.prems show ?thesis by auto
    next
      case (Inr addrs)
      with False Cons.prems have "addEndpoints n ts (insert t (addAll s addrs)) = Inl f"
        by simp
      from Cons.IH [OF this] show ?thesis by auto
    qed
  qed
qed

lemma handlePublicIPs_explicit:
  assumes "env EnvPublicIPs = Some raw" and "raw \<noteq> []"
  shows "handlePublicIPs n env = addEndpoints n (Split raw ValueSeparator) {}"
  using assms by (simp add: handlePublicIPs_def env_Get_def)

text \<open>
  C9: when \<^verbatim>\<open>PUBLIC_IPS\<close> is set and not empty it is split at the separator. The
  process ends exactly when some piece is no literal address and fails to resolve (the
  fatal error carries the resolver's error and names the piece). Otherwise the set
  holds every piece that is a literal address and, for every other piece, every address
  the piece resolves to. The result is a set: nothing occurs in it twice.
\<close>

theorem C9_public_addresses:
  assumes "env EnvPublicIPs = Some raw" and "raw \<noteq> []"
  shows
    "((\<exists>f. handlePublicIPs n env = Inl f)
        \<longleftrightarrow> (\<exists>t \<in> set (Split raw ValueSeparator).
               \<not> net_ParseIP n t \<and> (\<exists>err. net_LookupHost n t = Inl err)))
     \<and> (\<forall>f. handlePublicIPs n env = Inl f
          \<longrightarrow> (\<exists>t \<in> set (Split raw ValueSeparator). \<exists>err.
                 \<not> net_ParseIP n t \<and> net_LookupHost n t = Inl err
                 \<and> f = Fatal err
                       ''Unable to initialize MinIO server with [%s] invalid entry found in MINIO_PUBLIC_IPS''
                       [t]))
     \<and> (\<forall>s. handlePublicIPs n env = Inr s
          \<longrightarrow> (\<forall>t \<in> set (Split raw ValueSeparator).
                 (net_ParseIP n t \<longrightarrow> t \<in> s)
                 \<and> (\<not> net_ParseIP n t
                    \<longrightarrow> (\<exists>addrs. net_LookupHost n t = Inr addrs \<and> set addrs \<subseteq> s))))"
proof -
  let ?ts = "Split raw ValueSeparator"
  have h: "handlePublicIPs n env = addEndpoints n ?ts {}"
    using assms by (rule handlePublicIPs_explicit)
  have 1: "(\<exists>f. handlePublicIPs n env = Inl f)
        \<longleftrightarrow> (\<exists>t \<in> set ?ts. \<not> net_ParseIP n t \<and> (\<exists>err. net_LookupHost n t = Inl err))"
    unfolding h by (rule addEndpoints_fatal)
  have 2: "\<forall>f. handlePublicIPs n env = Inl f
          \<longrightarrow> (\<exists>t \<in> set ?ts. \<exists>err.
                 \<not> net_ParseIP n t \<and> net_LookupHost n t = Inl err
                 \<and> f = Fatal err
                       ''Unable to initialize MinIO server with [%s] invalid entry found in MINIO_PUBLIC_IPS''
                       [t])"
    unfolding h using addEndpoints_fatal_token by blast
  have 3: "\<forall>s. handlePublicIPs n env = Inr s
          \<longrightarrow> (\<forall>t \<in> set ?ts.
                 (net_ParseIP n t \<longrightarrow> t \<in> s)
                 \<and> (\<not> net_ParseIP n t
                    \<longrightarrow> (\<exists>addrs. net_LookupHost n t = Inr addrs \<and> set addrs \<subseteq> s)))"
  proof (intro allI impI ballI conjI)
    fix s t
    assume ok: "handlePublicIPs n env = Inr s" and t: "t \<in> set ?ts"
    from ok have s: "s = {} \<union> set ?ts \<union> resolvedAddrs n ?ts"
      unfolding h by (rule addEndpoints_ok)
    { assume "net_ParseIP n t"
      from s t show "t \<in> s" by simp }
    { assume np: "\<not> net_ParseIP n t"
      have "\<not> (\<exists>f. handlePublicIPs n env = Inl f)" using ok by simp
      with 1 t np have "\<not> (\<exists>err. net_LookupHost n t = Inl err)" by blast
      then obtain addrs where l: "net_LookupHost n t = Inr addrs"
        by (cases "net_LookupHost n t") auto
      with np t have "set addrs \<subseteq> resolvedAddrs n ?ts"
        by (auto simp: resolvedAddrs_def)
      with s l show "\<exists>addrs. net_LookupHost n t = Inr addrs \<and> set addrs \<subseteq> s" by auto }
  qed
  show ?thesis by (rule conjI [OF 1 conjI [OF 2 3]])
qed

theorem C9_public_addresses_witness:
  "handlePublicIPs exampleNet envIPs =
     Inr {''10.0.0.1'', ''minio.example.com'', ''192.168.1.7'', ''192.168.1.8''}
   \<and> (\<exists>f. handlePublicIPs exampleNet envBadHost = Inl f)"
proof -
  have e: "envIPs EnvPublicIPs = Some ''10.0.0.1,minio.example.com,192.168.1.7''"
    "envBadHost EnvPublicIPs = Some ''10.0.0.1,nowhere.invalid''"
    by (simp_all add: envIPs_def envBadHost_def)
  have n: "''10.0.0.1,minio.example.com,192.168.1.7'' \<noteq> []" "''10.0.0.1,nowhere.invalid'' \<noteq> []"
    by simp_all
  have s: "Split ''10.0.0.1,nowhere.invalid'' ValueSeparator = [''10.0.0.1'', ''nowhere.invalid'']"
    by (simp add: ValueSeparator_def)
  have b: "\<exists>t \<in> set (Split ''10.0.0.1,nowhere.invalid'' ValueSeparator).
             \<not> net_ParseIP exampleNet t \<and> (\<exists>err. net_LookupHost exampleNet t = Inl err)"
    unfolding s by (simp add: exampleNet_def)
  have 1: "handlePublicIPs exampleNet envIPs =
     Inr {''10.0.0.1'', ''minio.example.com'', ''192.168.1.7'', ''192.168.1.8''}"
    by (simp add: handlePublicIPs_def envIPs_def env_defs exampleNet_def addAll_def insert_commute)
  have 2: "\<exists>f. handlePublicIPs exampleNet envBadHost = Inl f"
    using C9_public_addresses [where n = exampleNet and env = envBadHost
        and raw = "''10.0.0.1,nowhere.invalid''", OF e(2) n(2), THEN conjunct1] b
    by (rule iffD2)
  show ?thesis by (rule conjI [OF 1 2])
qed

text \<open>
  C10: on the same path every piece of the input, also a host name that resolved, is
  itself a member of the resulting set, next to the addresses it resolved to: the set is
  the pieces together with the resolved addresses, so it can hold host names.
\<close>

theorem C10_tokens_added:
  assumes "env EnvPublicIPs = Some raw" and "raw \<noteq> []"
    and "handlePublicIPs n env = Inr s"
  shows
    "set (Split raw ValueSeparator) \<subseteq> s
     \<and> (\<forall>t \<in> set (Split raw ValueSeparator).
          \<not> net_ParseIP n t
          \<longrightarrow> (\<exists>addrs. net_LookupHost n t = Inr addrs \<and> t \<in> s \<and> set addrs \<subseteq> s))
     \<and> s = set (Split raw ValueSeparator) \<union> resolvedAddrs n (Split raw ValueSeparator)"
proof -
  let ?ts = "Split raw ValueSeparator"
  have h: "handlePublicIPs n env = addEndpoints n ?ts {}"
    using assms(1,2) by (rule handlePublicIPs_explicit)
  from assms(3) have s: "s = {} \<union> set ?ts \<union> resolvedAddrs n ?ts"
    unfolding h by (rule addEndpoints_ok)
  have 1: "set ?ts \<subseteq> s" using s by auto
  have 3: "s = set ?ts \<union> resolvedAddrs n ?ts" using s by simp
  have 2: "\<forall>t \<in> set ?ts. \<not> net_ParseIP n t
          \<longrightarrow> (\<exists>addrs. net_LookupHost n t = Inr addrs \<and> t \<in> s \<and> set addrs \<subseteq> s)"
  proof (intro ballI impI)
    fix t assume t: "t \<in> set ?ts" and np: "\<not> net_ParseIP n t"
    have "\<not> (\<exists>f. addEndpoints n ?ts {} = Inl f)" using assms(3) h by simp
    with t np have "\<not> (\<exists>err. net_LookupHost n t = Inl err)"
      using addEndpoints_fatal [of n ?ts "{}"] by blast
    then obtain addrs where l: "net_LookupHost n t = Inr addrs"
      by (cases "net_LookupHost n t") auto
    with np t have "set addrs \<subseteq> resolvedAddrs n ?ts"
      by (auto simp: resolvedAddrs_def)
    with 3 1 t l show "\<exists>addrs. net_LookupHost n t = Inr addrs \<and> t \<in> s \<and> set addrs \<subseteq> s"
      by auto
  qed
  show ?thesis by (rule conjI [OF 1 conjI [OF 2 3]])
qed

theorem C10_tokens_added_witness:
  "handlePublicIPs exampleNet envIPs =
     Inr {''10.0.0.1'', ''minio.example.com'', ''192.168.1.7'', ''192.168.1.8''}
   \<and> \<not> net_ParseIP exampleNet ''minio.example.com''
   \<and> ''minio.example.com'' \<in> set (Split ''10.0.0.1,minio.example.com,192.168.1.7'' ValueSeparator)
   \<and> ''minio.example.com''
       \<in> {''10.0.0.1'', ''minio.example.com'', ''192.168.1.7'', ''192.168.1.8''}"
proof -
  have e: "envIPs EnvPublicIPs = Some ''10.0.0.1,minio.example.com,192.168.1.7''"
    by (simp add: envIPs_def)
  have n: "''10.0.0.1,minio.example.com,192.168.1.7'' \<noteq> []" by simp
  have 1: "handlePublicIPs exampleNet envIPs =
     Inr {''10.0.0.1'', ''minio.example.com'', ''192.168.1.7'', ''192.168.1.8''}"
    by (simp add: handlePublicIPs_def envIPs_def env_defs exampleNet_def addAll_def insert_commute)
  have 2: "\<not> net_ParseIP exampleNet ''minio.example.com''"
    by (simp add: exampleNet_def)
  have 3: "''minio.example.com''
      \<in> set (Split ''10.0.0.1,minio.example.com,192.168.1.7'' ValueSeparator)"
    by (simp add: ValueSeparator_def)
  have 4: "''minio.example.com''
       \<in> {''10.0.0.1'', ''minio.example.com'', ''192.168.1.7'', ''192.168.1.8''}"
    using C10_tokens_added [where n = exampleNet and env = envIPs
        and raw = "''10.0.0.1,minio.example.com,192.168.1.7''", OF e n 1, THEN conjunct1] 3
    by (rule subsetD)
  show ?thesis by (rule conjI [OF 1 conjI [OF 2 conjI [OF 3 4]]])
qed

subsection \<open>The KMS resolver\<close>

lemmas kms_example_defs =
  exampleKMS_def noKMS_def envSecret_def envMaster_def envKES_def envSecretKES_def
  envMasterKES_def

text \<open>
  C1: when the secret key and the KES endpoint are both set, or the master key and the
  KES endpoint are both set, the KMS part ends the process with the error
  \<^verbatim>\<open>ambigious KMS configuration\<close>. When it does not end the process, exactly one of
  four things has happened, told apart by the environment: the secret key alone built
  a \<open>StaticSecret\<close>; the master key alone (no secret key) built a
  \<open>LegacyMasterKey\<close>; the KES endpoint alone built a \<open>RemoteEndpoint\<close>, on a state
  the earlier steps left untouched; or none of the three is set and the state, with its
  \<^verbatim>\<open>GlobalKMS\<close>, is what it was.
\<close>

theorem C1_kms_resolution:
  "(env_IsSet env EnvKMSSecretKey \<and> env_IsSet env EnvKESEndpoint
      \<longrightarrow> handleKMS d env caDir st =
            Inl (Fatal (ErrorsNew ''ambigious KMS configuration'')
                   ''The environment contains %q as well as %q''
                   [EnvKMSSecretKey, EnvKESEndpoint]))
   \<and> (env_IsSet env EnvKMSMasterKey \<and> env_IsSet env EnvKESEndpoint
      \<longrightarrow> handleKMS d env caDir st =
            Inl (Fatal (ErrorsNew ''ambigious KMS configuration'')
                   ''The environment contains %q as well as %q''
                   [if env_IsSet env EnvKMSSecretKey then EnvKMSSecretKey else EnvKMSMasterKey,
                    EnvKESEndpoint]))
   \<and> (handleKMS d env caDir st = Inr st'
      \<longrightarrow> (env_IsSet env EnvKMSSecretKey \<and> \<not> env_IsSet env EnvKESEndpoint
            \<and> (\<exists>k. kms_Parse d (env_Get env EnvKMSSecretKey '''') = Inr k
                  \<and> st' = st\<lparr>GlobalKMS := Some (StaticSecret k)\<rparr>))
        \<or> (\<not> env_IsSet env EnvKMSSecretKey \<and> env_IsSet env EnvKMSMasterKey
            \<and> \<not> env_IsSet env EnvKESEndpoint
            \<and> (\<exists>k. st' = st\<lparr>logged := logged st @ [ErrorsNew ''legacy KMS configuration''],
                           GlobalKMS := Some (LegacyMasterKey k)\<rparr>))
        \<or> (\<not> env_IsSet env EnvKMSSecretKey \<and> \<not> env_IsSet env EnvKMSMasterKey
            \<and> env_IsSet env EnvKESEndpoint
            \<and> (\<exists>k. st' = st\<lparr>GlobalKMS := Some (RemoteEndpoint k)\<rparr>))
        \<or> (\<not> env_IsSet env EnvKMSSecretKey \<and> \<not> env_IsSet env EnvKMSMasterKey
            \<and> \<not> env_IsSet env EnvKESEndpoint \<and> st' = st))"
proof (intro conjI impI)
  assume "env_IsSet env EnvKMSSecretKey \<and> env_IsSet env EnvKESEndpoint"
  then show "handleKMS d env caDir st =
            Inl (Fatal (ErrorsNew ''ambigious KMS configuration'')
                   ''The environment contains %q as well as %q''
                   [EnvKMSSecretKey, EnvKESEndpoint])"
    unfolding handleKMS_def by (simp only: simp_thms if_True)
next
  assume "env_IsSet env EnvKMSMasterKey \<and> env_IsSet env EnvKESEndpoint"
  then show "handleKMS d env caDir st =
            Inl (Fatal (ErrorsNew ''ambigious KMS configuration'')
                   ''The environment contains %q as well as %q''
                   [if env_IsSet env EnvKMSSecretKey then EnvKMSSecretKey else EnvKMSMasterKey,
                    EnvKESEndpoint])"
    unfolding handleKMS_def
    by (cases "env_IsSet env EnvKMSSecretKey") (simp_all only: simp_thms if_True if_False)
next
  assume ok: "handleKMS d env caDir st = Inr st'"
  show "(env_IsSet env EnvKMSSecretKey \<and> \<not> env_IsSet env EnvKESEndpoint
            \<and> (\<exists>k. kms_Parse d (env_Get env EnvKMSSecretKey '''') = Inr k
                  \<and> st' = st\<lparr>GlobalKMS := Some (StaticSecret k)\<rparr>))
        \<or> (\<not> env_IsSet env EnvKMSSecretKey \<and> env_IsSet env EnvKMSMasterKey
            \<and> \<not> env_IsSet env EnvKESEndpoint
            \<and> (\<exists>k. st' = st\<lparr>logged := logged st @ [ErrorsNew ''legacy KMS configuration''],
                           GlobalKMS := Some (LegacyMasterKey k)\<rparr>))
        \<or> (\<not> env_IsSet env EnvKMSSecretKey \<and> \<not> env_IsSet env EnvKMSMasterKey
            \<and> env_IsSet env EnvKESEndpoint
            \<and> (\<exists>k. st' = st\<lparr>GlobalKMS := Some (RemoteEndpoint k)\<rparr>))
        \<or> (\<not> env_IsSet env EnvKMSSecretKey \<and> \<not> env_IsSet env EnvKMSMasterKey
            \<and> \<not> env_IsSet env EnvKESEndpoint \<and> st' = st)"
  proof (cases "env_IsSet env EnvKESEndpoint")
    case kes: True
    with ok have s: "\<not> env_IsSet env EnvKMSSecretKey" and m: "\<not> env_IsSet env EnvKMSMasterKey"
      by (auto simp: handleKMS_def split: if_splits)
    from ok kes s m have "\<exists>k. st' = st\<lparr>GlobalKMS := Some (RemoteEndpoint k)\<rparr>"
      by (auto simp: handleKMS_def split: sum.splits)
    with kes s m show ?thesis by simp
  next
    case kes: False
    show ?thesis
    proof (cases "env_IsSet env EnvKMSSecretKey")
      case s: True
      from ok kes s have "\<exists>k. kms_Parse d (env_Get env EnvKMSSecretKey '''') = Inr k
                  \<and> st' = st\<lparr>GlobalKMS := Some (StaticSecret k)\<rparr>"
        by (auto simp: handleKMS_def split: sum.splits)
      with kes s show ?thesis by simp
    next
      case s: False
      show ?thesis
      proof (cases "env_IsSet env EnvKMSMasterKey")
        case m: True
        from ok kes s m
        have "\<exists>k. st' = st\<lparr>logged := logged st @ [ErrorsNew ''legacy KMS configuration''],
                           GlobalKMS := Some (LegacyMasterKey k)\<rparr>"
          by (auto simp: handleKMS_def Let_def split: sum.splits if_splits)
        with kes s m show ?thesis by simp
      next
        case m: False
        from ok kes s m have "st' = st" by (simp add: handleKMS_def)
        with kes s m show ?thesis by simp
      qed
    qed
  qed
qed

theorem C1_kms_resolution_witness:
  "handleKMS exampleKMS envSecretKES ''/certs/CAs'' noKMS =
     Inl (Fatal (ErrorsNew ''ambigious KMS configuration'')
            ''The environment contains %q as well as %q'' [EnvKMSSecretKey, EnvKESEndpoint])
   \<and> handleKMS exampleKMS envMasterKES ''/certs/CAs'' noKMS =
     Inl (Fatal (ErrorsNew ''ambigious KMS configuration'')
            ''The environment contains %q as well as %q'' [EnvKMSMasterKey, EnvKESEndpoint])
   \<and> handleKMS exampleKMS envSecret ''/certs/CAs'' noKMS =
     Inr \<lparr>GlobalKMS = Some (StaticSecret ''my-key:bXktc2VjcmV0''), logged = []\<rparr>
   \<and> env_IsSet envSecret EnvKMSSecretKey \<and> \<not> env_IsSet envSecret EnvKESEndpoint"
proof -
  have i: "env_IsSet envSecretKES EnvKMSSecretKey" "env_IsSet envSecretKES EnvKESEndpoint"
    "env_IsSet envMasterKES EnvKMSMasterKey" "env_IsSet envMasterKES EnvKESEndpoint"
    "\<not> env_IsSet envMasterKES EnvKMSSecretKey"
    "env_IsSet envSecret EnvKMSSecretKey" "\<not> env_IsSet envSecret EnvKESEndpoint"
    by (simp_all add: kms_example_defs env_defs)
  have r: "handleKMS exampleKMS envSecret ''/certs/CAs'' noKMS =
     Inr \<lparr>GlobalKMS = Some (StaticSecret ''my-key:bXktc2VjcmV0''), logged = []\<rparr>"
    by (simp add: handleKMS_def kms_example_defs env_defs)
  show ?thesis
    using i r
      C1_kms_resolution [where env = envSecretKES and d = exampleKMS and st = noKMS
        and caDir = "''/certs/CAs''"]
      C1_kms_resolution [where env = envMasterKES and d = exampleKMS and st = noKMS
        and caDir = "''/certs/CAs''"]
      C1_kms_resolution [where env = envSecret and d = exampleKMS and st = noKMS
        and caDir = "''/certs/CAs''"
        and st' = "\<lparr>GlobalKMS = Some (StaticSecret ''my-key:bXktc2VjcmV0''), logged = []\<rparr>"]
    by simp
qed

subsection \<open>Evaluation and the loop of the certificate loader\<close>

lemmas mode_defs =
  IsRegular_def IsDir_def ModeType_def ModeDir_def ModeSymlink_def ModeDevice_def
  ModeNamedPipe_def ModeSocket_def ModeCharDevice_def ModeIrregular_def

lemmas example_defs =
  exampleOS_def exampleCerts_def exampleEntries_def exampleFiles_def
  getPublicCertFile_def getPrivateKeyFile_def publicCertFile_def privateKeyFile_def
  malformedFoo_def malformedRootCert_def malformedRootPair_def unopenable_def unlistable_def

lemmas loader_defs =
  getTLSConfig_def scanEntries_def scanEntry_def NewManager_def AddCertificate_def
  HasPrefix_def

lemma scanEntry_excluded:
  "excludedEntry os root file \<Longrightarrow> scanEntry os cd root st file = st"
  by (auto simp: excludedEntry_def scanEntry_def split: sum.splits)

lemma scanEntry_incomplete:
  "incompleteEntry os root file \<Longrightarrow> scanEntry os cd root st file = st"
  by (auto simp: incompleteEntry_def entryCertFile_def entryKeyFile_def entryTarget_def
        scanEntry_def Let_def split: sum.splits)

lemma scanEntry_candidate:
  assumes "\<not> excludedEntry os root file" and "\<not> incompleteEntry os root file"
  shows "scanEntry os cd root st file =
     (case LoadX509KeyPair cd (entryCertFile os root file) (entryKeyFile os root file) of
        Inl err \<Rightarrow>
          (fst st,
           snd st @ [loadError (entryCertFile os root file) (entryKeyFile os root file) err])
      | Inr pair \<Rightarrow>
          (fst st @ [(entryCertFile os root file, entryKeyFile os root file, pair)], snd st))"
  using assms
  by (auto simp: excludedEntry_def incompleteEntry_def entryCertFile_def entryKeyFile_def
        entryTarget_def scanEntry_def Let_def AddCertificate_def loadError_def
        split: sum.splits)

text \<open>One step of the loop appends what \<open>entryOutcome\<close> says the entry adds.\<close>

lemma scanEntry_outcome:
  "scanEntry os cd root st file =
     (fst st @ fst (entryOutcome os cd root file), snd st @ snd (entryOutcome os cd root file))"
proof (cases "excludedEntry os root file \<or> incompleteEntry os root file")
  case True
  then have "scanEntry os cd root st file = st"
    using scanEntry_excluded scanEntry_incomplete by blast
  with True show ?thesis by (simp add: entryOutcome_def)
next
  case False
  then show ?thesis
    by (simp add: scanEntry_candidate entryOutcome_def split: sum.splits)
qed

text \<open>The whole loop: the outcomes of the entries, appended in the order of the listing.\<close>

lemma scanEntries_outcome:
  "scanEntries os cd root files (manager, log) =
     (manager @ concat (map (\<lambda>f. fst (entryOutcome os cd root f)) files),
      log @ concat (map (\<lambda>f. snd (entryOutcome os cd root f)) files))"
  unfolding scanEntries_def
proof (induction files arbitrary: manager log)
  case Nil
  show ?case by simp
next
  case (Cons f files)
  show ?case by (simp add: scanEntry_outcome [of os cd root "(manager, log)" f] Cons.IH)
qed

lemma scanEntries_filter:
  "scanEntries os cd root files st =
   scanEntries os cd root
     (filter (\<lambda>f. \<not> (excludedEntry os root f \<or> incompleteEntry os root f)) files) st"
  unfolding scanEntries_def
  by (induction files arbitrary: st) (auto simp: scanEntry_excluded scanEntry_incomplete)

lemma getTLSConfig_scan:
  assumes "isFile os (getPublicCertFile os dir)" and "isFile os (getPrivateKeyFile os dir)"
    and "ParsePublicCertFile cd (getPublicCertFile os dir) = Inr certs"
    and "LoadX509KeyPair cd (getPublicCertFile os dir) (getPrivateKeyFile os dir) = Inr pair"
    and "os_Open os dir = None"
    and "Readdir os dir = Inr files"
  shows "getTLSConfig os cd dir log =
     ((certs,
       Some ((getPublicCertFile os dir, getPrivateKeyFile os dir, pair)
               # concat (map (\<lambda>f. fst (entryOutcome os cd dir f)) files)),
       True, None),
      log @ concat (map (\<lambda>f. snd (entryOutcome os cd dir f)) files))"
  using assms by (simp add: getTLSConfig_def NewManager_def scanEntries_outcome)

subsection \<open>The certificate loader\<close>

text \<open>
  C4: in the scan of the certs root directory, an entry that is a regular file, is named
  exactly \<^verbatim>\<open>CAs\<close>, has a name beginning with two dots, or is a symbolic link whose
  resolution fails or whose target is not a directory (\<open>excludedEntry\<close>), and an entry
  that lacks \<^verbatim>\<open>public.crt\<close> or \<^verbatim>\<open>private.key\<close> (\<open>incompleteEntry\<close>), leaves the
  manager and the log as they were; it adds nothing (\<open>entryOutcome\<close>), and the whole
  scan is the scan of the listing without these entries.
\<close>

theorem C4_skipped_entries:
  "(excludedEntry os root file \<or> incompleteEntry os root file
      \<longrightarrow> scanEntry os cd root (manager, log) file = (manager, log)
          \<and> entryOutcome os cd root file = ([], []))
   \<and> scanEntries os cd root files (manager, log) =
       scanEntries os cd root
         (filter (\<lambda>f. \<not> (excludedEntry os root f \<or> incompleteEntry os root f)) files)
         (manager, log)
   \<and> fst (scanEntries os cd root files (manager, log)) =
       manager @ concat (map (\<lambda>f. fst (entryOutcome os cd root f)) files)"
proof (intro conjI impI)
  assume "excludedEntry os root file \<or> incompleteEntry os root file"
  then show "scanEntry os cd root (manager, log) file = (manager, log)"
    using scanEntry_excluded scanEntry_incomplete by blast
next
  assume "excludedEntry os root file \<or> incompleteEntry os root file"
  then show "entryOutcome os cd root file = ([], [])"
    by (simp add: entryOutcome_def)
next
  show "scanEntries os cd root files (manager, log) =
       scanEntries os cd root
         (filter (\<lambda>f. \<not> (excludedEntry os root f \<or> incompleteEntry os root f)) files)
         (manager, log)"
    by (rule scanEntries_filter)
next
  show "fst (scanEntries os cd root files (manager, log)) =
       manager @ concat (map (\<lambda>f. fst (entryOutcome os cd root f)) files)"
    by (simp add: scanEntries_outcome)
qed

theorem C4_skipped_entries_witness:
  "excludedEntry exampleOS ''/certs'' entryCAs
   \<and> scanEntry exampleOS exampleCerts ''/certs'' ([], []) entryCAs = ([], [])
   \<and> excludedEntry exampleOS ''/certs'' entryDots
   \<and> scanEntry exampleOS exampleCerts ''/certs'' ([], []) entryDots = ([], [])
   \<and> excludedEntry exampleOS ''/certs'' entryDangling
   \<and> scanEntry exampleOS exampleCerts ''/certs'' ([], []) entryDangling = ([], [])
   \<and> excludedEntry exampleOS ''/certs'' entryToFile
   \<and> scanEntry exampleOS exampleCerts ''/certs'' ([], []) entryToFile = ([], [])
   \<and> incompleteEntry exampleOS ''/certs'' entryBar
   \<and> scanEntry exampleOS exampleCerts ''/certs'' ([], []) entryBar = ([], [])"
proof -
  have a: "excludedEntry exampleOS ''/certs'' entryCAs"
    by (simp add: excludedEntry_def entryCAs_def)
  have b: "excludedEntry exampleOS ''/certs'' entryDots"
    by (simp add: excludedEntry_def entryDots_def HasPrefix_def)
  have c: "excludedEntry exampleOS ''/certs'' entryDangling"
    by (simp add: excludedEntry_def entryDangling_def exampleOS_def mode_defs)
  have d: "excludedEntry exampleOS ''/certs'' entryToFile"
    by (simp add: excludedEntry_def entryToFile_def exampleOS_def mode_defs)
  have e: "incompleteEntry exampleOS ''/certs'' entryBar"
    by (simp add: incompleteEntry_def entryKeyFile_def entryCertFile_def entryTarget_def
          entryBar_def example_defs mode_defs)
  show ?thesis
    using a b c d e
      C4_skipped_entries [of exampleOS "''/certs''" entryCAs exampleCerts "[]" "[]" "[]"]
      C4_skipped_entries [of exampleOS "''/certs''" entryDots exampleCerts "[]" "[]" "[]"]
      C4_skipped_entries [of exampleOS "''/certs''" entryDangling exampleCerts "[]" "[]" "[]"]
      C4_skipped_entries [of exampleOS "''/certs''" entryToFile exampleCerts "[]" "[]" "[]"]
      C4_skipped_entries [of exampleOS "''/certs''" entryBar exampleCerts "[]" "[]" "[]"]
    by blast
qed

text \<open>
  C5: with the root pair present, a failure to parse the root certificate file, to load
  the root pair into a new manager, to open the root directory or to list it makes
  \<^verbatim>\<open>getTLSConfig\<close> return that error (no certificates, no manager, secure mode off).
  Once the listing is read the function returns no error whatever happens to the
  entries: a candidate entry whose pair fails to load leaves the manager as it was and
  appends one error to the log, and the scan goes on with the entries after it.
\<close>

theorem C5_failures:
  assumes "isFile os (getPublicCertFile os dir)" and "isFile os (getPrivateKeyFile os dir)"
  shows
    "(ParsePublicCertFile cd (getPublicCertFile os dir) = Inl e
        \<longrightarrow> getTLSConfig os cd dir log = (([], None, False, Some e), log))
     \<and> (ParsePublicCertFile cd (getPublicCertFile os dir) = Inr certs
        \<and> LoadX509KeyPair cd (getPublicCertFile os dir) (getPrivateKeyFile os dir) = Inl e
        \<longrightarrow> getTLSConfig os cd dir log = (([], None, False, Some e), log))
     \<and> (ParsePublicCertFile cd (getPublicCertFile os dir) = Inr certs
        \<and> LoadX509KeyPair cd (getPublicCertFile os dir) (getPrivateKeyFile os dir) = Inr pair
        \<and> os_Open os dir = Some e
        \<longrightarrow> getTLSConfig os cd dir log = (([], None, False, Some e), log))
     \<and> (ParsePublicCertFile cd (getPublicCertFile os dir) = Inr certs
        \<and> LoadX509KeyPair cd (getPublicCertFile os dir) (getPrivateKeyFile os dir) = Inr pair
        \<and> os_Open os dir = None \<and> Readdir os dir = Inl e
        \<longrightarrow> getTLSConfig os cd dir log = (([], None, False, Some e), log))
     \<and> (ParsePublicCertFile cd (getPublicCertFile os dir) = Inr certs
        \<and> LoadX509KeyPair cd (getPublicCertFile os dir) (getPrivateKeyFile os dir) = Inr pair
        \<and> os_Open os dir = None \<and> Readdir os dir = Inr files
        \<longrightarrow> getTLSConfig os cd dir log =
              ((certs,
                Some ((getPublicCertFile os dir, getPrivateKeyFile os dir, pair)
                        # concat (map (\<lambda>f. fst (entryOutcome os cd dir f)) files)),
                True, None),
               log @ concat (map (\<lambda>f. snd (entryOutcome os cd dir f)) files)))
     \<and> (\<not> excludedEntry os dir file \<and> \<not> incompleteEntry os dir file
        \<and> LoadX509KeyPair cd (entryCertFile os dir file) (entryKeyFile os dir file) = Inl e
        \<longrightarrow> scanEntry os cd dir (manager, log) file =
              (manager, log @ [loadError (entryCertFile os dir file) (entryKeyFile os dir file) e])
            \<and> entryOutcome os cd dir file =
              ([], [loadError (entryCertFile os dir file) (entryKeyFile os dir file) e])
            \<and> scanEntries os cd dir (file # files) (manager, log) =
              scanEntries os cd dir files
                (manager,
                 log @ [loadError (entryCertFile os dir file) (entryKeyFile os dir file) e]))"
proof (intro conjI impI)
  assume "ParsePublicCertFile cd (getPublicCertFile os dir) = Inl e"
  with assms show "getTLSConfig os cd dir log = (([], None, False, Some e), log)"
    by (simp add: getTLSConfig_def)
next
  assume "ParsePublicCertFile cd (getPublicCertFile os dir) = Inr certs
        \<and> LoadX509KeyPair cd (getPublicCertFile os dir) (getPrivateKeyFile os dir) = Inl e"
  with assms show "getTLSConfig os cd dir log = (([], None, False, Some e), log)"
    by (simp add: getTLSConfig_def NewManager_def)
next
  assume "ParsePublicCertFile cd (getPublicCertFile os dir) = Inr certs
        \<and> LoadX509KeyPair cd (getPublicCertFile os dir) (getPrivateKeyFile os dir) = Inr pair
        \<and> os_Open os dir = Some e"
  with assms show "getTLSConfig os cd dir log = (([], None, False, Some e), log)"
    by (simp add: getTLSConfig_def NewManager_def)
next
  assume "ParsePublicCertFile cd (getPublicCertFile os dir) = Inr certs
        \<and> LoadX509KeyPair cd (getPublicCertFile os dir) (getPrivateKeyFile os dir) = Inr pair
        \<and> os_Open os dir = None \<and> Readdir os dir = Inl e"
  with assms show "getTLSConfig os cd dir log = (([], None, False, Some e), log)"
    by (simp add: getTLSConfig_def NewManager_def)
next
  assume "ParsePublicCertFile cd (getPublicCertFile os dir) = Inr certs
        \<and> LoadX509KeyPair cd (getPublicCertFile os dir) (getPrivateKeyFile os dir) = Inr pair
        \<and> os_Open os dir = None \<and> Readdir os dir = Inr files"
  with assms show "getTLSConfig os cd dir log =
              ((certs,
                Some ((getPublicCertFile os dir, getPrivateKeyFile os dir, pair)
                        # concat (map (\<lambda>f. fst (entryOutcome os cd dir f)) files)),
                True, None),
               log @ concat (map (\<lambda>f. snd (entryOutcome os cd dir f)) files))"
    by (simp add: getTLSConfig_scan)
next
  assume h: "\<not> excludedEntry os dir file \<and> \<not> incompleteEntry os dir file
        \<and> LoadX509KeyPair cd (entryCertFile os dir file) (entryKeyFile os dir file) = Inl e"
  then show step: "scanEntry os cd dir (manager, log) file =
      (manager, log @ [loadError (entryCertFile os dir file) (entryKeyFile os dir file) e])"
    by (simp add: scanEntry_candidate)
  from h show "entryOutcome os cd dir file =
      ([], [loadError (entryCertFile os dir file) (entryKeyFile os dir file) e])"
    by (simp add: entryOutcome_def)
  from step show "scanEntries os cd dir (file # files) (manager, log) =
      scanEntries os cd dir files
        (manager, log @ [loadError (entryCertFile os dir file) (entryKeyFile os dir file) e])"
    by (simp add: scanEntries_def)
qed

theorem C5_failures_witness:
  "getTLSConfig exampleOS malformedRootCert ''/certs'' [] =
     (([], None, False, Some (LibErr ''malformed'')), [])
   \<and> getTLSConfig exampleOS malformedRootPair ''/certs'' [] =
     (([], None, False, Some (LibErr ''malformed'')), [])
   \<and> getTLSConfig unopenable exampleCerts ''/certs'' [] =
     (([], None, False, Some (LibErr ''permission denied'')), [])
   \<and> getTLSConfig unlistable exampleCerts ''/certs'' [] =
     (([], None, False, Some (LibErr ''input/output error'')), [])
   \<and> getTLSConfig exampleOS malformedFoo ''/certs'' [] =
     (([''/certs/public.crt''],
       Some [(''/certs/public.crt'', ''/certs/private.key'', ())],
       True, None),
      [loadError ''/certs/foo.com/public.crt'' ''/certs/foo.com/private.key''
         (LibErr ''malformed'')])"
proof -
  have r: "getPublicCertFile exampleOS ''/certs'' = ''/certs/public.crt''"
    "getPrivateKeyFile exampleOS ''/certs'' = ''/certs/private.key''"
    "getPublicCertFile unopenable ''/certs'' = ''/certs/public.crt''"
    "getPrivateKeyFile unopenable ''/certs'' = ''/certs/private.key''"
    "getPublicCertFile unlistable ''/certs'' = ''/certs/public.crt''"
    "getPrivateKeyFile unlistable ''/certs'' = ''/certs/private.key''"
    by (simp_all add: example_defs)
  have f: "isFile exampleOS ''/certs/public.crt''" "isFile exampleOS ''/certs/private.key''"
    "isFile unopenable ''/certs/public.crt''" "isFile unopenable ''/certs/private.key''"
    "isFile unlistable ''/certs/public.crt''" "isFile unlistable ''/certs/private.key''"
    by (simp_all add: example_defs)
  have o: "entryOutcome exampleOS malformedFoo ''/certs'' \<lparr>Name = ''public.crt'', Mode = 0x1A4\<rparr> = ([], [])"
    "entryOutcome exampleOS malformedFoo ''/certs'' \<lparr>Name = ''private.key'', Mode = 0x180\<rparr> = ([], [])"
    "entryOutcome exampleOS malformedFoo ''/certs'' \<lparr>Name = ''foo.com'', Mode = 0x800001ED\<rparr> =
       ([], [loadError ''/certs/foo.com/public.crt'' ''/certs/foo.com/private.key''
               (LibErr ''malformed'')])"
    "entryOutcome exampleOS malformedFoo ''/certs'' \<lparr>Name = ''bar.com'', Mode = 0x800001ED\<rparr> = ([], [])"
    by (simp_all add: entryOutcome_def excludedEntry_def incompleteEntry_def entryCertFile_def
          entryKeyFile_def entryTarget_def HasPrefix_def example_defs mode_defs)
  have 1: "getTLSConfig exampleOS malformedRootCert ''/certs'' [] =
     (([], None, False, Some (LibErr ''malformed'')), [])"
    using C5_failures [where os = exampleOS and dir = "''/certs''" and cd = malformedRootCert
        and e = "LibErr ''malformed''" and log = "[]"] r f
    by (simp add: malformedRootCert_def)
  have 2: "getTLSConfig exampleOS malformedRootPair ''/certs'' [] =
     (([], None, False, Some (LibErr ''malformed'')), [])"
    using C5_failures [where os = exampleOS and dir = "''/certs''" and cd = malformedRootPair
        and e = "LibErr ''malformed''" and log = "[]" and certs = "[''/certs/public.crt'']"] r f
    by (simp add: malformedRootPair_def exampleCerts_def)
  have 3: "getTLSConfig unopenable exampleCerts ''/certs'' [] =
     (([], None, False, Some (LibErr ''permission denied'')), [])"
    using C5_failures [where os = unopenable and dir = "''/certs''" and cd = exampleCerts
        and e = "LibErr ''permission denied''" and log = "[]"
        and certs = "[''/certs/public.crt'']" and pair = "()"] r f
    by (simp add: exampleCerts_def unopenable_def)
  have 4: "getTLSConfig unlistable exampleCerts ''/certs'' [] =
     (([], None, False, Some (LibErr ''input/output error'')), [])"
    using C5_failures [where os = unlistable and dir = "''/certs''" and cd = exampleCerts
        and e = "LibErr ''input/output error''" and log = "[]"
        and certs = "[''/certs/public.crt'']" and pair = "()"] r f
    by (simp add: exampleCerts_def unlistable_def exampleOS_def)
  have 5: "getTLSConfig exampleOS malformedFoo ''/certs'' [] =
     (([''/certs/public.crt''],
       Some [(''/certs/public.crt'', ''/certs/private.key'', ())],
       True, None),
      [loadError ''/certs/foo.com/public.crt'' ''/certs/foo.com/private.key''
         (LibErr ''malformed'')])"
    using C5_failures [where os = exampleOS and dir = "''/certs''" and cd = malformedFoo
        and log = "[]" and certs = "[''/certs/public.crt'']" and pair = "()"
        and files = exampleEntries] r f o
    by (simp add: malformedFoo_def exampleCerts_def exampleOS_def exampleEntries_def)
  from 1 2 3 4 5 show ?thesis by simp
qed

text \<open>
  C6: when the certs root directory does not hold both the root public certificate file
  and the root private key file, \<^verbatim>\<open>getTLSConfig\<close> returns no certificates, no manager,
  secure mode off and no error, and logs nothing.
\<close>

theorem C6_not_configured:
  "\<not> (isFile os (getPublicCertFile os dir) \<and> isFile os (getPrivateKeyFile os dir))
   \<Longrightarrow> getTLSConfig os cd dir log = (([], None, False, None), log)"
  by (simp add: getTLSConfig_def)

theorem C6_not_configured_witness:
  "\<not> (isFile exampleOS (getPublicCertFile exampleOS ''/certs/bar.com'')
        \<and> isFile exampleOS (getPrivateKeyFile exampleOS ''/certs/bar.com''))
   \<and> getTLSConfig exampleOS exampleCerts ''/certs/bar.com'' [] = (([], None, False, None), [])"
proof -
  have h: "\<not> (isFile exampleOS (getPublicCertFile exampleOS ''/certs/bar.com'')
        \<and> isFile exampleOS (getPrivateKeyFile exampleOS ''/certs/bar.com''))"
    by (simp add: example_defs)
  show ?thesis
    using h C6_not_configured [OF h, of exampleCerts "[]"] by simp
qed

text \<open>
  C7, as the code has it: on the certs directory of the example (root pair, \<^verbatim>\<open>foo.com\<close>
  with both files, \<^verbatim>\<open>bar.com\<close> with \<^verbatim>\<open>public.crt\<close> only) \<^verbatim>\<open>getTLSConfig\<close> returns a
  manager holding the root pair and the pair of \<^verbatim>\<open>foo.com\<close> only, secure mode on and no
  error, and it logs nothing: \<^verbatim>\<open>bar.com\<close> is passed over without a warning.
\<close>

theorem C7_example_silent:
  "getTLSConfig exampleOS exampleCerts ''/certs'' [] =
     (([''/certs/public.crt''],
       Some [(''/certs/public.crt'', ''/certs/private.key'', ()),
             (''/certs/foo.com/public.crt'', ''/certs/foo.com/private.key'', ())],
       True, None),
      [])"
  by (simp add: loader_defs example_defs mode_defs)

text \<open>
  C7, as the claim states it, fails: the log does not hold exactly one warning after the
  load of the example directory.
\<close>

theorem C7_counterexample:
  "\<not> (fst (getTLSConfig exampleOS exampleCerts ''/certs'' []) =
        ([''/certs/public.crt''],
         Some [(''/certs/public.crt'', ''/certs/private.key'', ()),
               (''/certs/foo.com/public.crt'', ''/certs/foo.com/private.key'', ())],
         True, None)
      \<and> length (snd (getTLSConfig exampleOS exampleCerts ''/certs'' [])) = 1)"
  by (simp add: loader_defs example_defs mode_defs)

end
